theory Spec2Isabelle
  imports Main "HOL-Library.Word" "HOL-Library.List_Lexorder" "HOL-Library.Multiset"
begin

section \<open>JavaScript values and strings\<close>

text \<open>
  A JavaScript string is a sequence of UTF-16 code units. Literals of the source are
  written \<open>js ''...''\<close>; \<open>nl\<close> is the line feed inside a template literal and
  \<open>sq\<close> the single quote of an SQL string constant.
\<close>

type_synonym jsstring = "16 word list"

definition js :: "string \<Rightarrow> jsstring" where
  "js s = map (\<lambda>c. of_nat (of_char c)) s"

definition nl :: jsstring where
  "nl = [0x0A]"

definition sq :: jsstring where
  "sq = [0x27]"

text \<open>
  The values a parsed JSON body or a bind list can hold. Numbers are the integers; an
  array is the list of its elements; a plain object is one opaque value, taken to have no
  \<open>length\<close> property. Arrays and objects are only passed through.
\<close>

datatype jsval =
  JUndefined | JNull | JBool bool | JNum int | JStr jsstring | JArray "jsval list" | JObject

text \<open>An exception of the source: \<open>new Error(msg)\<close>, a \<open>TypeError\<close> of the runtime,
  or an error raised by the storage engine while it executes a statement.\<close>

datatype exn = Error jsstring | TypeError | StorageError

text \<open>Template-literal interpolation of a positive counter: its decimal digits.\<close>

definition digit :: "nat \<Rightarrow> 16 word" where
  "digit d = of_nat (48 + d)"

function show_nat :: "nat \<Rightarrow> jsstring" where
  "show_nat n = (if n < 10 then [digit n] else show_nat (n div 10) @ [digit (n mod 10)])"
  by pat_completeness auto
termination
  by (relation "measure (\<lambda>n. n)") auto

declare show_nat.simps [simp del]

text \<open>\<open>Array.prototype.join\<close>.\<close>

fun join :: "jsstring \<Rightarrow> jsstring list \<Rightarrow> jsstring" where
  "join sep [] = []"
| "join sep [x] = x"
| "join sep (x # y # ys) = x @ sep @ join sep (y # ys)"

section \<open>The partial-update query builder of updateProject\<close>

text \<open>
  \<open>Object.entries(updates)\<close> is the list of (key, value) pairs of the mapping, in the
  order JavaScript enumerates them. The \<open>forEach\<close> body pushes one assignment and one bind
  value and increments \<open>paramCount\<close>; the loop state is (fields, values, paramCount).
\<close>

definition update_step ::
  "jsstring list \<times> jsval list \<times> nat \<Rightarrow> jsstring \<times> jsval \<Rightarrow> jsstring list \<times> jsval list \<times> nat" where
  "update_step st kv =
     (case st of (fields, values, paramCount) \<Rightarrow>
        (case kv of (key, value) \<Rightarrow>
           (fields @ [key @ js '' = $'' @ show_nat paramCount],
            values @ [value],
            paramCount + 1)))"

definition updateProject_build ::
  "jsstring \<Rightarrow> jsstring \<Rightarrow> (jsstring \<times> jsval) list \<Rightarrow> exn + (jsstring \<times> jsval list)" where
  "updateProject_build projectId userId updates =
     (case foldl update_step ([], [], 1) updates of (fields, values, paramCount) \<Rightarrow>
        if length fields = 0 then Inl (Error (js ''No fields to update''))
        else
          Inr (nl @ js ''      UPDATE projects '' @ nl
                 @ js ''      SET '' @ join (js '', '') fields @ js '', updated_at = NOW()'' @ nl
                 @ js ''      WHERE id = $'' @ show_nat paramCount
                 @ js '' AND user_id = $'' @ show_nat (paramCount + 1) @ nl
                 @ js ''      RETURNING *'' @ nl
                 @ js ''    '',
               values @ [JStr projectId, JStr userId]))"

text \<open>
  The statement the specification describes, written from its words: the columns in
  order, the i-th bound to placeholder \<open>$i\<close>, then \<open>updated_at = NOW()\<close>, and a row
  selector on id and user_id that uses the next two placeholders.
\<close>

definition spec_assignments :: "jsstring list \<Rightarrow> jsstring list" where
  "spec_assignments cols =
     map (\<lambda>(i, col). col @ js '' = $'' @ show_nat i) (enumerate 1 cols)"

definition spec_update_text :: "jsstring list \<Rightarrow> jsstring" where
  "spec_update_text cols =
     nl @ js ''      UPDATE projects '' @ nl
     @ js ''      SET '' @ join (js '', '') (spec_assignments cols) @ js '', updated_at = NOW()'' @ nl
     @ js ''      WHERE id = $'' @ show_nat (length cols + 1)
     @ js '' AND user_id = $'' @ show_nat (length cols + 2) @ nl
     @ js ''      RETURNING *'' @ nl
     @ js ''    ''"

section \<open>UTF-8 byte length of a string\<close>

text \<open>
  \<open>Buffer.byteLength(content, "utf8")\<close> counts the bytes of the UTF-8 encoding without
  building it: one to three bytes for a code unit outside the surrogate range, four for a
  surrogate pair, three (U+FFFD) for a lone surrogate. It throws a \<open>TypeError\<close> when the
  argument is not a string. \<open>utf8_encode\<close> is the encoding the driver sends to the
  storage engine for a string parameter.
\<close>

definition is_high_surrogate :: "16 word \<Rightarrow> bool" where
  "is_high_surrogate u = (0xD800 \<le> u \<and> u < 0xDC00)"

definition is_low_surrogate :: "16 word \<Rightarrow> bool" where
  "is_low_surrogate u = (0xDC00 \<le> u \<and> u < 0xE000)"

definition unit_bytes :: "16 word \<Rightarrow> nat" where
  "unit_bytes u = (if u < 0x80 then 1 else if u < 0x800 then 2 else 3)"

fun utf8_length :: "jsstring \<Rightarrow> nat" where
  "utf8_length [] = 0"
| "utf8_length [u] = unit_bytes u"
| "utf8_length (u # v # us) =
     (if is_high_surrogate u \<and> is_low_surrogate v then 4 + utf8_length us
      else unit_bytes u + utf8_length (v # us))"

definition byteLength :: "jsval \<Rightarrow> exn + nat" where
  "byteLength content = (case content of JStr s \<Rightarrow> Inr (utf8_length s) | _ \<Rightarrow> Inl TypeError)"

definition encode_code_point :: "nat \<Rightarrow> 8 word list" where
  "encode_code_point c =
     (if c < 0x80 then [of_nat c]
      else if c < 0x800 then [of_nat (0xC0 + c div 0x40), of_nat (0x80 + c mod 0x40)]
      else if c < 0x10000 then
        [of_nat (0xE0 + c div 0x1000), of_nat (0x80 + (c div 0x40) mod 0x40),
         of_nat (0x80 + c mod 0x40)]
      else
        [of_nat (0xF0 + c div 0x40000), of_nat (0x80 + (c div 0x1000) mod 0x40),
         of_nat (0x80 + (c div 0x40) mod 0x40), of_nat (0x80 + c mod 0x40)])"

definition scalar_of_unit :: "16 word \<Rightarrow> nat" where
  "scalar_of_unit u =
     (if is_high_surrogate u \<or> is_low_surrogate u then 0xFFFD else unat u)"

fun utf8_encode :: "jsstring \<Rightarrow> 8 word list" where
  "utf8_encode [] = []"
| "utf8_encode [u] = encode_code_point (scalar_of_unit u)"
| "utf8_encode (u # v # us) =
     (if is_high_surrogate u \<and> is_low_surrogate v
      then encode_code_point (0x10000 + (unat u - 0xD800) * 0x400 + (unat v - 0xDC00))
             @ utf8_encode us
      else encode_code_point (scalar_of_unit u) @ utf8_encode (v # us))"

section \<open>The storage engine's tables\<close>

text \<open>
  One record per table, the fields named after the columns with the alias the statements
  use for the table (\<open>p\<close>, \<open>pf\<close>, \<open>c\<close>). Timestamps are natural numbers. The content of
  a file is held as the stored bytes. A table is the list of its rows.
\<close>

type_synonym timestamp = nat

record project =
  p_id :: jsstring
  p_user_id :: jsstring
  p_name :: jsstring
  p_description :: jsstring
  p_template_used :: jsval
  p_status :: jsstring
  p_settings :: jsval
  p_created_at :: timestamp
  p_updated_at :: timestamp

record project_file =
  pf_project_id :: jsstring
  pf_file_path :: jsstring
  pf_file_name :: jsstring
  pf_content :: "8 word list"
  pf_file_type :: jsstring
  pf_size_bytes :: nat
  pf_created_at :: timestamp
  pf_updated_at :: timestamp

record conversation =
  c_id :: jsstring
  c_project_id :: jsstring
  c_user_id :: jsstring
  c_message :: jsstring
  c_response :: jsstring
  c_ai_model :: jsstring
  c_tokens_used :: int
  c_created_at :: timestamp

text \<open>
  The state of the storage engine: the three tables, the statements handed to it so far
  (text and bind values, oldest first) and the clock that \<open>NOW()\<close> reads. The clock is
  advanced by the environment, not by the operations. The engine is taken to be reachable
  and to execute each statement: the only engine errors in the model are those the
  statement itself causes (a negative \<open>LIMIT\<close>, an assignment the engine rejects).
  Rows with equal sort keys come back in the order a stable sort gives.
\<close>

record db =
  projects :: "project list"
  project_files :: "project_file list"
  conversations :: "conversation list"
  issued :: "(jsstring \<times> jsval list) list"
  now :: timestamp

text \<open>\<open>DatabaseService.query\<close>: the statement goes to the pool. What it does to the tables
  is written with each operation, from the statement's text.\<close>

definition query :: "jsstring \<Rightarrow> jsval list \<Rightarrow> db \<Rightarrow> db" where
  "query text params s = s\<lparr>issued := issued s @ [(text, params)]\<rparr>"

text \<open>\<open>result.rows[0]\<close>: the first row, \<open>undefined\<close> when there is none.\<close>

definition rows0 :: "'a list \<Rightarrow> 'a option" where
  "rows0 rows = (case rows of [] \<Rightarrow> None | r # _ \<Rightarrow> Some r)"

text \<open>\<open>ORDER BY key DESC\<close>.\<close>

definition order_by_desc :: "('a \<Rightarrow> 'k::linorder) \<Rightarrow> 'a list \<Rightarrow> 'a list" where
  "order_by_desc key rows = rev (sort_key key rows)"

section \<open>Projects\<close>

definition createProject_sql :: jsstring where
  "createProject_sql =
     nl @ js ''      INSERT INTO projects (user_id, name, description, template_used)'' @ nl
     @ js ''      VALUES ($1, $2, $3, $4)'' @ nl
     @ js ''      RETURNING *'' @ nl
     @ js ''    ''"

text \<open>What a text column holds for a bound value: \<open>null\<close> and \<open>undefined\<close> are NULL, a
  number or a boolean is stored as its text.\<close>

definition show_int :: "int \<Rightarrow> jsstring" where
  "show_int i = (if i < 0 then js ''-'' @ show_nat (nat (- i)) else show_nat (nat i))"

definition as_text :: "jsval \<Rightarrow> jsval" where
  "as_text v =
     (case v of
        JUndefined \<Rightarrow> JNull
      | JNull \<Rightarrow> JNull
      | JBool b \<Rightarrow> JStr (if b then js ''true'' else js ''false'')
      | JNum n \<Rightarrow> JStr (show_int n)
      | JStr t \<Rightarrow> JStr t
      | JArray xs \<Rightarrow> JArray xs
      | JObject \<Rightarrow> JObject)"

text \<open>
  Modelled from the spec: the column defaults of the projects table, whose schema is not
  among the sources. The id is generated by the engine (\<open>newId\<close>), the status of a new
  row is active, settings are absent, both timestamps are the time of the insert.
  The parameter \<open>template\<close> defaults to \<open>null\<close> when it is \<open>undefined\<close>.
\<close>

definition createProject ::
  "jsstring \<Rightarrow> jsstring \<Rightarrow> jsstring \<Rightarrow> jsstring \<Rightarrow> jsval \<Rightarrow> db \<Rightarrow> (exn + project) \<times> db" where
  "createProject newId userId name description template s =
     (let template' = (if template = JUndefined then JNull else template);
          row = \<lparr>p_id = newId, p_user_id = userId, p_name = name,
                 p_description = description, p_template_used = as_text template',
                 p_status = js ''active'', p_settings = JNull,
                 p_created_at = now s, p_updated_at = now s\<rparr>;
          s1 = query createProject_sql [JStr userId, JStr name, JStr description, template'] s
      in (Inr row, s1\<lparr>projects := projects s1 @ [row]\<rparr>))"

definition getProjects_sql :: jsstring where
  "getProjects_sql =
     nl @ js ''      SELECT p.*, '' @ nl
     @ js ''        COALESCE(file_stats.file_count, 0) as file_count,'' @ nl
     @ js ''        COALESCE(conv_stats.conversation_count, 0) as conversation_count,'' @ nl
     @ js ''        conv_stats.last_conversation'' @ nl
     @ js ''      FROM projects p'' @ nl
     @ js ''      LEFT JOIN ('' @ nl
     @ js ''        SELECT project_id, COUNT(*) as file_count'' @ nl
     @ js ''        FROM project_files'' @ nl
     @ js ''        GROUP BY project_id'' @ nl
     @ js ''      ) file_stats ON p.id = file_stats.project_id'' @ nl
     @ js ''      LEFT JOIN ('' @ nl
     @ js ''        SELECT project_id, COUNT(*) as conversation_count, MAX(created_at) as last_conversation'' @ nl
     @ js ''        FROM conversations'' @ nl
     @ js ''        GROUP BY project_id'' @ nl
     @ js ''      ) conv_stats ON p.id = conv_stats.project_id'' @ nl
     @ js ''      WHERE p.user_id = $1 AND p.status = '' @ sq @ js ''active'' @ sq @ nl
     @ js ''      ORDER BY p.updated_at DESC'' @ nl
     @ js ''    ''"

record project_summary =
  ps_project :: project
  file_count :: nat
  conversation_count :: nat
  last_conversation :: "timestamp option"

definition max_created_at :: "conversation list \<Rightarrow> timestamp option" where
  "max_created_at cs =
     (case cs of [] \<Rightarrow> None
      | c # cs' \<Rightarrow> Some (foldl max (c_created_at c) (map c_created_at cs')))"

definition summary :: "db \<Rightarrow> project \<Rightarrow> project_summary" where
  "summary s p =
     (let fs = filter (\<lambda>pf. pf_project_id pf = p_id p) (project_files s);
          cs = filter (\<lambda>c. c_project_id c = p_id p) (conversations s)
      in \<lparr>ps_project = p, file_count = length fs, conversation_count = length cs,
          last_conversation = max_created_at cs\<rparr>)"

definition getProjects :: "jsstring \<Rightarrow> db \<Rightarrow> (exn + project_summary list) \<times> db" where
  "getProjects userId s =
     (let rows = filter (\<lambda>p. p_user_id p = userId \<and> p_status p = js ''active'') (projects s)
      in (Inr (map (summary s) (order_by_desc p_updated_at rows)),
          query getProjects_sql [JStr userId] s))"

definition getProject_sql :: jsstring where
  "getProject_sql =
     nl @ js ''      SELECT * FROM projects '' @ nl
     @ js ''      WHERE id = $1 AND user_id = $2 AND status = '' @ sq @ js ''active'' @ sq @ nl
     @ js ''    ''"

definition getProject :: "jsstring \<Rightarrow> jsstring \<Rightarrow> db \<Rightarrow> (exn + project option) \<times> db" where
  "getProject projectId userId s =
     (let rows = filter (\<lambda>p. p_id p = projectId \<and> p_user_id p = userId
                              \<and> p_status p = js ''active'') (projects s)
      in (Inr (rows0 rows), query getProject_sql [JStr projectId, JStr userId] s))"

text \<open>
  The dynamic UPDATE. The schema is not among the sources, so what the engine does with
  one \<open>column = value\<close> assignment is the parameter \<open>assign\<close>: \<open>None\<close> when the engine
  rejects it (no such column, a value the column does not take), else the change to a row.
  The error of the builder is raised before \<open>query\<close> is reached.
\<close>

definition updateProject ::
  "(jsstring \<Rightarrow> jsval \<Rightarrow> (project \<Rightarrow> project) option) \<Rightarrow>
   jsstring \<Rightarrow> jsstring \<Rightarrow> (jsstring \<times> jsval) list \<Rightarrow> db \<Rightarrow> (exn + project option) \<times> db" where
  "updateProject assign projectId userId updates s =
     (case updateProject_build projectId userId updates of
        Inl e \<Rightarrow> (Inl e, s)
      | Inr (text, values) \<Rightarrow>
          (let s1 = query text values s in
           case those (map (\<lambda>(key, value). assign key value) updates) of
             None \<Rightarrow> (Inl StorageError, s1)
           | Some changes \<Rightarrow>
               (let hit = (\<lambda>p. p_id p = projectId \<and> p_user_id p = userId);
                    upd = (\<lambda>p. (fold (\<lambda>f r. f r) changes p)\<lparr>p_updated_at := now s\<rparr>);
                    rows = map upd (filter hit (projects s))
                in (Inr (rows0 rows),
                    s1\<lparr>projects := map (\<lambda>p. if hit p then upd p else p) (projects s)\<rparr>))))"

definition deleteProject_sql :: jsstring where
  "deleteProject_sql =
     nl @ js ''      UPDATE projects '' @ nl
     @ js ''      SET status = '' @ sq @ js ''deleted'' @ sq @ js '', updated_at = NOW()'' @ nl
     @ js ''      WHERE id = $1 AND user_id = $2'' @ nl
     @ js ''      RETURNING *'' @ nl
     @ js ''    ''"

definition deleteProject :: "jsstring \<Rightarrow> jsstring \<Rightarrow> db \<Rightarrow> (exn + project option) \<times> db" where
  "deleteProject projectId userId s =
     (let hit = (\<lambda>p. p_id p = projectId \<and> p_user_id p = userId);
          upd = (\<lambda>p. p\<lparr>p_status := js ''deleted'', p_updated_at := now s\<rparr>);
          rows = map upd (filter hit (projects s));
          s1 = query deleteProject_sql [JStr projectId, JStr userId] s
      in (Inr (rows0 rows),
          s1\<lparr>projects := map (\<lambda>p. if hit p then upd p else p) (projects s)\<rparr>))"

text \<open>\<open>UPDATE projects SET updated_at = NOW() WHERE id = $1\<close>, issued after a child row
  is written.\<close>

definition touch_sql :: jsstring where
  "touch_sql = js ''UPDATE projects SET updated_at = NOW() WHERE id = $1''"

definition touchProject :: "jsstring \<Rightarrow> db \<Rightarrow> db" where
  "touchProject projectId s =
     (let s1 = query touch_sql [JStr projectId] s
      in s1\<lparr>projects :=
              map (\<lambda>p. if p_id p = projectId then p\<lparr>p_updated_at := now s\<rparr> else p)
                  (projects s)\<rparr>)"

section \<open>Conversations\<close>

definition saveConversation_sql :: jsstring where
  "saveConversation_sql =
     nl @ js ''      INSERT INTO conversations (project_id, user_id, message, response, ai_model, tokens_used)'' @ nl
     @ js ''      VALUES ($1, $2, $3, $4, $5, $6)'' @ nl
     @ js ''      RETURNING *'' @ nl
     @ js ''    ''"

text \<open>
  Modelled from the spec: the column defaults of the conversations table, whose schema is
  not among the sources. The id is generated by the engine (\<open>newId\<close>) and
  \<open>created_at\<close> is the time of the insert. The second statement bumps the parent project.
\<close>

definition saveConversation ::
  "jsstring \<Rightarrow> jsstring \<Rightarrow> jsstring \<Rightarrow> jsstring \<Rightarrow> jsstring \<Rightarrow> jsstring \<Rightarrow> int \<Rightarrow> db
     \<Rightarrow> (exn + conversation) \<times> db" where
  "saveConversation newId projectId userId message response aiModel tokensUsed s =
     (let row = \<lparr>c_id = newId, c_project_id = projectId, c_user_id = userId,
                 c_message = message, c_response = response, c_ai_model = aiModel,
                 c_tokens_used = tokensUsed, c_created_at = now s\<rparr>;
          s1 = query saveConversation_sql
                 [JStr projectId, JStr userId, JStr message, JStr response, JStr aiModel,
                  JNum tokensUsed] s;
          s2 = s1\<lparr>conversations := conversations s1 @ [row]\<rparr>
      in (Inr row, touchProject projectId s2))"

definition getConversations_sql :: jsstring where
  "getConversations_sql =
     nl @ js ''      SELECT c.* FROM conversations c'' @ nl
     @ js ''      JOIN projects p ON c.project_id = p.id'' @ nl
     @ js ''      WHERE c.project_id = $1 AND p.user_id = $2'' @ nl
     @ js ''      ORDER BY c.created_at DESC'' @ nl
     @ js ''      LIMIT $3'' @ nl
     @ js ''    ''"

text \<open>
  The join pairs every conversation of the project with every project row of that id
  owned by the user. The engine rejects a negative \<open>LIMIT\<close>. The rows come back
  most recent first and \<open>reverse()\<close> turns them round.
\<close>

definition getConversations ::
  "jsstring \<Rightarrow> jsstring \<Rightarrow> int \<Rightarrow> db \<Rightarrow> (exn + conversation list) \<times> db" where
  "getConversations projectId userId limit s =
     (let s1 = query getConversations_sql [JStr projectId, JStr userId, JNum limit] s;
          joined = [c. c \<leftarrow> conversations s, p \<leftarrow> projects s,
                       c_project_id c = p_id p \<and> c_project_id c = projectId
                       \<and> p_user_id p = userId]
      in if limit < 0 then (Inl StorageError, s1)
         else (Inr (rev (take (nat limit) (order_by_desc c_created_at joined))), s1))"

section \<open>Project files\<close>

definition saveProjectFile_sql :: jsstring where
  "saveProjectFile_sql =
     nl @ js ''      INSERT INTO project_files (project_id, file_path, file_name, content, file_type, size_bytes)'' @ nl
     @ js ''      VALUES ($1, $2, $3, $4, $5, $6)'' @ nl
     @ js ''      ON CONFLICT (project_id, file_path)'' @ nl
     @ js ''      DO UPDATE SET '' @ nl
     @ js ''        content = EXCLUDED.content,'' @ nl
     @ js ''        file_name = EXCLUDED.file_name,'' @ nl
     @ js ''        file_type = EXCLUDED.file_type,'' @ nl
     @ js ''        size_bytes = EXCLUDED.size_bytes,'' @ nl
     @ js ''        updated_at = NOW()'' @ nl
     @ js ''      RETURNING *'' @ nl
     @ js ''    ''"

text \<open>The bytes the driver sends for the content parameter; only a string gets as far as
  the statement, since \<open>Buffer.byteLength\<close> has thrown for anything else.\<close>

definition content_bytes :: "jsval \<Rightarrow> 8 word list" where
  "content_bytes content = (case content of JStr text \<Rightarrow> utf8_encode text | _ \<Rightarrow> [])"

text \<open>
  Modelled from the spec: the column defaults of the project_files table, whose schema is
  not among the sources; both timestamps of a new row are the time of the insert.
  The upsert itself is the statement's: a row with the same (project_id, file_path) is
  overwritten in the five columns of the \<open>DO UPDATE SET\<close> list, otherwise the new row is
  appended. The second statement bumps the parent project.
\<close>

definition saveProjectFile ::
  "jsstring \<Rightarrow> jsstring \<Rightarrow> jsstring \<Rightarrow> jsval \<Rightarrow> jsstring \<Rightarrow> db \<Rightarrow> (exn + project_file) \<times> db" where
  "saveProjectFile projectId filePath fileName content fileType s =
     (case byteLength content of
        Inl e \<Rightarrow> (Inl e, s)
      | Inr sizeBytes \<Rightarrow>
          (let hit = (\<lambda>pf. pf_project_id pf = projectId \<and> pf_file_path pf = filePath);
               new = \<lparr>pf_project_id = projectId, pf_file_path = filePath,
                      pf_file_name = fileName, pf_content = content_bytes content,
                      pf_file_type = fileType, pf_size_bytes = sizeBytes,
                      pf_created_at = now s, pf_updated_at = now s\<rparr>;
               upd = (\<lambda>pf. pf\<lparr>pf_content := content_bytes content, pf_file_name := fileName,
                               pf_file_type := fileType, pf_size_bytes := sizeBytes,
                               pf_updated_at := now s\<rparr>);
               s1 = query saveProjectFile_sql
                      [JStr projectId, JStr filePath, JStr fileName, content, JStr fileType,
                       JNum (int sizeBytes)] s
           in case filter hit (project_files s) of
                [] \<Rightarrow>
                  (Inr new, touchProject projectId (s1\<lparr>project_files := project_files s @ [new]\<rparr>))
              | r # _ \<Rightarrow>
                  (Inr (upd r),
                   touchProject projectId
                     (s1\<lparr>project_files :=
                           map (\<lambda>pf. if hit pf then upd pf else pf) (project_files s)\<rparr>))))"

definition getProjectFiles_sql :: jsstring where
  "getProjectFiles_sql =
     nl @ js ''      SELECT pf.* FROM project_files pf'' @ nl
     @ js ''      JOIN projects p ON pf.project_id = p.id'' @ nl
     @ js ''      WHERE pf.project_id = $1 AND p.user_id = $2'' @ nl
     @ js ''      ORDER BY pf.file_path'' @ nl
     @ js ''    ''"

definition getProjectFiles ::
  "jsstring \<Rightarrow> jsstring \<Rightarrow> db \<Rightarrow> (exn + project_file list) \<times> db" where
  "getProjectFiles projectId userId s =
     (let joined = [pf. pf \<leftarrow> project_files s, p \<leftarrow> projects s,
                        pf_project_id pf = p_id p \<and> pf_project_id pf = projectId
                        \<and> p_user_id p = userId]
      in (Inr (sort_key pf_file_path joined),
          query getProjectFiles_sql [JStr projectId, JStr userId] s))"

definition getProjectFile_sql :: jsstring where
  "getProjectFile_sql =
     nl @ js ''      SELECT pf.* FROM project_files pf'' @ nl
     @ js ''      JOIN projects p ON pf.project_id = p.id'' @ nl
     @ js ''      WHERE pf.project_id = $1 AND pf.file_path = $2 AND p.user_id = $3'' @ nl
     @ js ''    ''"

definition getProjectFile ::
  "jsstring \<Rightarrow> jsstring \<Rightarrow> jsstring \<Rightarrow> db \<Rightarrow> (exn + project_file option) \<times> db" where
  "getProjectFile projectId filePath userId s =
     (let joined = [pf. pf \<leftarrow> project_files s, p \<leftarrow> projects s,
                        pf_project_id pf = p_id p \<and> pf_project_id pf = projectId
                        \<and> pf_file_path pf = filePath \<and> p_user_id p = userId]
      in (Inr (rows0 joined),
          query getProjectFile_sql [JStr projectId, JStr filePath, JStr userId] s))"

definition deleteProjectFile_sql :: jsstring where
  "deleteProjectFile_sql =
     nl @ js ''      DELETE FROM project_files pf'' @ nl
     @ js ''      USING projects p'' @ nl
     @ js ''      WHERE pf.project_id = p.id '' @ nl
     @ js ''      AND pf.project_id = $1 '' @ nl
     @ js ''      AND pf.file_path = $2 '' @ nl
     @ js ''      AND p.user_id = $3'' @ nl
     @ js ''      RETURNING pf.*'' @ nl
     @ js ''    ''"

text \<open>A file row is deleted, once, when some project row joins with it.\<close>

definition deleteProjectFile ::
  "jsstring \<Rightarrow> jsstring \<Rightarrow> jsstring \<Rightarrow> db \<Rightarrow> (exn + project_file option) \<times> db" where
  "deleteProjectFile projectId filePath userId s =
     (let hit = (\<lambda>pf. pf_project_id pf = projectId \<and> pf_file_path pf = filePath
                       \<and> list_ex (\<lambda>p. pf_project_id pf = p_id p \<and> p_user_id p = userId)
                            (projects s));
          s1 = query deleteProjectFile_sql [JStr projectId, JStr filePath, JStr userId] s
      in (Inr (rows0 (filter hit (project_files s))),
          s1\<lparr>project_files := filter (\<lambda>pf. \<not> hit pf) (project_files s)\<rparr>))"

section \<open>The AI gateway\<close>

text \<open>
  \<open>this.anthropic\<close> is \<open>null\<close> when no credential was given at startup, else the
  provider's client. A call of \<open>messages.create\<close> either returns a message (its text and
  the two token counts) or throws an error object with an optional numeric \<open>status\<close> and
  a \<open>message\<close>; anything else thrown inside the \<open>try\<close> block is such an error without a
  status. The prompt text is a function of the capability's arguments; the request
  carries those arguments in place of the assembled text.
\<close>

datatype prompt =
    GenerateCodePrompt jsstring jsstring "project_file list"
  | ExplainCodePrompt jsstring jsstring
  | SuggestImprovementsPrompt jsstring jsstring
  | GenerateTestsPrompt jsstring jsstring

record ai_request =
  req_model :: jsstring
  req_max_tokens :: nat
  req_system :: bool
  req_prompt :: prompt

datatype provider_outcome =
    Returns jsstring nat nat
  | Throws "int option" jsstring

type_synonym provider = "ai_request \<Rightarrow> provider_outcome"

record usage =
  input_tokens :: nat
  output_tokens :: nat
  total_tokens :: nat

text \<open>The object a generation call returns; a property that the object literal does not
  set is \<open>None\<close>.\<close>

record ai_result =
  success :: bool
  error :: "jsstring option"
  code :: "jsval option"
  explanation :: "jsstring option"
  suggestions :: "jsstring option"
  tests :: "jsstring option"
  usage :: "usage option"
  model :: "jsstring option"

definition no_result :: ai_result where
  "no_result = \<lparr>success = False, error = None, code = None, explanation = None,
                 suggestions = None, tests = None, usage = None, model = None\<rparr>"

definition usage_of :: "nat \<Rightarrow> nat \<Rightarrow> usage" where
  "usage_of i out = \<lparr>input_tokens = i, output_tokens = out, total_tokens = i + out\<rparr>"

definition isConfigured :: "provider option \<Rightarrow> bool" where
  "isConfigured anthropic = (anthropic \<noteq> None)"

text \<open>Each call returns its result and the list of requests it sent to the provider.\<close>

definition generateCode ::
  "provider option \<Rightarrow> jsstring \<Rightarrow> jsstring \<Rightarrow> project_file list \<Rightarrow> ai_result \<times> ai_request list" where
  "generateCode anthropic prompt projectContext files =
     (case anthropic of
        None \<Rightarrow>
          (no_result\<lparr>success := False,
             error := Some (js ''AI service not configured - please add CLAUDE_API_KEY environment variable'')\<rparr>,
           [])
      | Some create \<Rightarrow>
          (let req = \<lparr>req_model = js ''claude-3-5-sonnet-20241022'', req_max_tokens = 4000,
                      req_system = True,
                      req_prompt = GenerateCodePrompt prompt projectContext files\<rparr>
           in case create req of
                Returns generatedCode i out \<Rightarrow>
                  (no_result\<lparr>success := True, code := Some (JStr generatedCode),
                     usage := Some (usage_of i out),
                     model := Some (js ''claude-3-5-sonnet-20241022'')\<rparr>,
                   [req])
              | Throws status message \<Rightarrow>
                  (let errorMessage =
                         (if status = Some 401 then
                            js ''Invalid API key - please check your CLAUDE_API_KEY environment variable''
                          else if status = Some 429 then
                            js ''Rate limit exceeded - please try again in a moment''
                          else if status = Some 400 then
                            js ''Invalid request - the prompt might be too long or contain unsupported content''
                          else message)
                   in (no_result\<lparr>success := False, error := Some errorMessage,
                         code := Some (case status of
                                         None \<Rightarrow> JStr (js ''UNKNOWN'')
                                       | Some n \<Rightarrow> if n = 0 then JStr (js ''UNKNOWN'') else JNum n)\<rparr>,
                       [req]))))"

definition explainCode ::
  "provider option \<Rightarrow> jsstring \<Rightarrow> jsstring \<Rightarrow> ai_result \<times> ai_request list" where
  "explainCode anthropic code' language =
     (case anthropic of
        None \<Rightarrow>
          (no_result\<lparr>success := False,
             error := Some (js ''AI service not configured - please add CLAUDE_API_KEY environment variable'')\<rparr>,
           [])
      | Some create \<Rightarrow>
          (let req = \<lparr>req_model = js ''claude-3-5-sonnet-20241022'', req_max_tokens = 1500,
                      req_system = False, req_prompt = ExplainCodePrompt code' language\<rparr>
           in case create req of
                Returns text i out \<Rightarrow>
                  (no_result\<lparr>success := True, explanation := Some text,
                     usage := Some (usage_of i out)\<rparr>, [req])
              | Throws status message \<Rightarrow>
                  (no_result\<lparr>success := False, error := Some message\<rparr>, [req])))"

definition suggestImprovements ::
  "provider option \<Rightarrow> jsstring \<Rightarrow> jsstring \<Rightarrow> ai_result \<times> ai_request list" where
  "suggestImprovements anthropic code' context' =
     (case anthropic of
        None \<Rightarrow>
          (no_result\<lparr>success := False, error := Some (js ''AI service not configured'')\<rparr>, [])
      | Some create \<Rightarrow>
          (let req = \<lparr>req_model = js ''claude-3-5-sonnet-20241022'', req_max_tokens = 2000,
                      req_system = False,
                      req_prompt = SuggestImprovementsPrompt code' context'\<rparr>
           in case create req of
                Returns text i out \<Rightarrow>
                  (no_result\<lparr>success := True, suggestions := Some text,
                     usage := Some (usage_of i out)\<rparr>, [req])
              | Throws status message \<Rightarrow>
                  (no_result\<lparr>success := False, error := Some message\<rparr>, [req])))"

definition generateTests ::
  "provider option \<Rightarrow> jsstring \<Rightarrow> jsstring \<Rightarrow> ai_result \<times> ai_request list" where
  "generateTests anthropic code' framework =
     (case anthropic of
        None \<Rightarrow>
          (no_result\<lparr>success := False, error := Some (js ''AI service not configured'')\<rparr>, [])
      | Some create \<Rightarrow>
          (let req = \<lparr>req_model = js ''claude-3-5-sonnet-20241022'', req_max_tokens = 3000,
                      req_system = False, req_prompt = GenerateTestsPrompt code' framework\<rparr>
           in case create req of
                Returns text i out \<Rightarrow>
                  (no_result\<lparr>success := True, tests := Some text,
                     usage := Some (usage_of i out)\<rparr>, [req])
              | Throws status message \<Rightarrow>
                  (no_result\<lparr>success := False, error := Some message\<rparr>, [req])))"

section \<open>Request handlers\<close>

text \<open>\<open>req.headers["x-user-id"] || "demo-user"\<close>: the header is absent (\<open>None\<close>) or a
  string.\<close>

definition getUserId :: "jsstring option \<Rightarrow> jsstring" where
  "getUserId x_user_id =
     (case x_user_id of
        None \<Rightarrow> js ''demo-user''
      | Some v \<Rightarrow> if v = [] then js ''demo-user'' else v)"

definition truthy :: "jsval \<Rightarrow> bool" where
  "truthy v =
     (case v of
        JUndefined \<Rightarrow> False
      | JNull \<Rightarrow> False
      | JBool b \<Rightarrow> b
      | JNum n \<Rightarrow> n \<noteq> 0
      | JStr t \<Rightarrow> t \<noteq> []
      | JArray xs \<Rightarrow> True
      | JObject \<Rightarrow> True)"

definition is_string :: "jsval \<Rightarrow> bool" where
  "is_string v = (case v of JStr _ \<Rightarrow> True | _ \<Rightarrow> False)"

text \<open>
  \<open>v.length > n\<close> for a truthy value \<open>v\<close>: a string has the number of its code units, an
  array the number of its elements; a number, \<open>true\<close> or a plain object has no
  \<open>length\<close>, and \<open>undefined > n\<close> is false.
\<close>

definition length_exceeds :: "jsval \<Rightarrow> nat \<Rightarrow> bool" where
  "length_exceeds v n =
     (case v of JStr t \<Rightarrow> length t > n | JArray xs \<Rightarrow> length xs > n | _ \<Rightarrow> False)"

text \<open>The string behind a value that \<open>typeof\<close> has shown to be a string.\<close>

definition the_string :: "jsval \<Rightarrow> jsstring" where
  "the_string v = (case v of JStr t \<Rightarrow> t | _ \<Rightarrow> [])"

text \<open>\<open>String.prototype.trim\<close> removes white space and line terminators at both ends.\<close>

definition is_white_space :: "16 word \<Rightarrow> bool" where
  "is_white_space u =
     (u \<in> set [0x09, 0x0A, 0x0B, 0x0C, 0x0D, 0x20, 0xA0, 0x1680, 0x2028, 0x2029, 0x202F,
               0x205F, 0x3000, 0xFEFF]
      \<or> (0x2000 \<le> u \<and> u \<le> 0x200A))"

definition trim :: "jsstring \<Rightarrow> jsstring" where
  "trim t = rev (dropWhile is_white_space (rev (dropWhile is_white_space t)))"

text \<open>
  \<open>uuidRegex.test\<close>, for
  \<open>/^[0-9a-f]{8}-[0-9a-f]{4}-[1-5][0-9a-f]{3}-[89ab][0-9a-f]{3}-[0-9a-f]{12}$/i\<close>.
\<close>

definition is_hex_digit :: "16 word \<Rightarrow> bool" where
  "is_hex_digit u =
     ((0x30 \<le> u \<and> u \<le> 0x39) \<or> (0x61 \<le> u \<and> u \<le> 0x66) \<or> (0x41 \<le> u \<and> u \<le> 0x46))"

definition uuidRegex_test :: "jsstring \<Rightarrow> bool" where
  "uuidRegex_test t =
     (length t = 36
      \<and> list_all is_hex_digit (take 8 t)
      \<and> t ! 8 = 0x2D
      \<and> list_all is_hex_digit (take 4 (drop 9 t))
      \<and> t ! 13 = 0x2D
      \<and> (0x31 \<le> t ! 14 \<and> t ! 14 \<le> 0x35)
      \<and> list_all is_hex_digit (take 3 (drop 15 t))
      \<and> t ! 18 = 0x2D
      \<and> t ! 19 \<in> set [0x38, 0x39, 0x61, 0x62, 0x41, 0x42]
      \<and> list_all is_hex_digit (take 3 (drop 20 t))
      \<and> t ! 23 = 0x2D
      \<and> list_all is_hex_digit (drop 24 t))"

text \<open>
  A JSON response: the HTTP status, the \<open>success\<close> and \<open>error\<close> properties of the body
  and its \<open>data\<close>. The other properties of a body (\<open>message\<close>, \<open>details\<close>, \<open>count\<close>,
  the echoed \<open>projectId\<close>, time stamps) are left out.
\<close>

record 'a response =
  res_status :: nat
  res_success :: bool
  res_error :: "jsstring option"
  res_data :: "'a option"

definition failed :: "nat \<Rightarrow> string \<Rightarrow> 'a response" where
  "failed st msg = \<lparr>res_status = st, res_success = False, res_error = Some (js msg),
                     res_data = None\<rparr>"

definition succeeded :: "nat \<Rightarrow> 'a \<Rightarrow> 'a response" where
  "succeeded st d = \<lparr>res_status = st, res_success = True, res_error = None,
                      res_data = Some d\<rparr>"

subsection \<open>GET /conversations/:projectId\<close>

text \<open>\<open>Math.min(parseInt(req.query.limit) || 50, 100)\<close>; the argument is what
  \<open>parseInt\<close> returned, \<open>None\<close> for \<open>NaN\<close>.\<close>

definition effective_limit :: "int option \<Rightarrow> int" where
  "effective_limit parsed =
     (let limit = (case parsed of None \<Rightarrow> 50 | Some n \<Rightarrow> if n = 0 then 50 else n)
      in min limit 100)"

definition get_conversations_handler ::
  "jsstring option \<Rightarrow> jsstring \<Rightarrow> int option \<Rightarrow> db \<Rightarrow> conversation list response \<times> db" where
  "get_conversations_handler x_user_id projectId parsed s =
     (let userId = getUserId x_user_id in
      if \<not> uuidRegex_test projectId then (failed 400 ''Invalid project ID format'', s)
      else
        case getProject projectId userId s of
          (Inl e, s1) \<Rightarrow> (failed 500 ''Failed to fetch conversations'', s1)
        | (Inr None, s1) \<Rightarrow> (failed 404 ''Project not found'', s1)
        | (Inr (Some project), s1) \<Rightarrow>
            (case getConversations projectId userId (effective_limit parsed) s1 of
               (Inl e, s2) \<Rightarrow> (failed 500 ''Failed to fetch conversations'', s2)
             | (Inr rows, s2) \<Rightarrow> (succeeded 200 rows, s2)))"

subsection \<open>POST /:id/files\<close>

text \<open>
  The body's \<open>filePath\<close>, \<open>fileName\<close> and \<open>fileType\<close> are strings when present
  (\<open>None\<close> when absent); \<open>content\<close> is any JSON value, \<open>JUndefined\<close> when absent.
  \<open>fileType\<close> defaults to \<open>text\<close>.
\<close>

definition save_file_handler ::
  "jsstring option \<Rightarrow> jsstring \<Rightarrow> jsstring option \<Rightarrow> jsstring option \<Rightarrow> jsval \<Rightarrow> jsstring option
     \<Rightarrow> db \<Rightarrow> project_file response \<times> db" where
  "save_file_handler x_user_id projectId filePath fileName content fileType s =
     (let userId = getUserId x_user_id;
          fileType' = (case fileType of None \<Rightarrow> js ''text'' | Some t \<Rightarrow> t)
      in
      case (filePath, fileName) of
        (Some path, Some name) \<Rightarrow>
          if path = [] \<or> name = [] \<or> content = JUndefined then
            (failed 400 ''filePath, fileName, and content are required'', s)
          else
            (case getProject projectId userId s of
               (Inl e, s1) \<Rightarrow> (failed 500 ''Failed to save file'', s1)
             | (Inr None, s1) \<Rightarrow> (failed 404 ''Project not found'', s1)
             | (Inr (Some project), s1) \<Rightarrow>
                 (case saveProjectFile projectId path name content fileType' s1 of
                    (Inl e, s2) \<Rightarrow> (failed 500 ''Failed to save file'', s2)
                  | (Inr file, s2) \<Rightarrow> (succeeded 200 file, s2)))
      | _ \<Rightarrow> (failed 400 ''filePath, fileName, and content are required'', s))"

subsection \<open>POST /message\<close>

text \<open>\<open>validateChatMessage\<close>.\<close>

definition validateChatMessage :: "jsval \<Rightarrow> jsval \<Rightarrow> jsstring list" where
  "validateChatMessage message projectId =
     (if \<not> truthy message \<or> \<not> is_string message \<or> length (trim (the_string message)) = 0
      then [js ''Message is required and must be a non-empty string''] else [])
     @ (if truthy message \<and> length_exceeds message 10000
        then [js ''Message must be less than 10,000 characters''] else [])
     @ (if truthy projectId \<and> \<not> is_string projectId
        then [js ''Project ID must be a string''] else [])"

definition projectContext_of :: "project \<Rightarrow> jsstring" where
  "projectContext_of project =
     js ''Project: '' @ p_name project @ nl
     @ js ''Description: ''
     @ (if p_description project \<noteq> [] then p_description project else js ''No description'')
     @ nl
     @ js ''Template: ''
     @ (if truthy (p_template_used project) then the_string (p_template_used project)
        else js ''None'')"

text \<open>
  The part of the handler after the project context is known: the configuration gate, the
  generation call, and the save of the conversation when a project was named. \<open>newId\<close> is
  the id the engine gives the conversation row.
\<close>

definition generate_and_save ::
  "provider option \<Rightarrow> jsstring \<Rightarrow> jsstring \<Rightarrow> jsstring \<Rightarrow> jsstring option \<Rightarrow> jsstring
     \<Rightarrow> project_file list \<Rightarrow> db \<Rightarrow> (ai_result \<times> conversation option) response \<times> db" where
  "generate_and_save anthropic newId userId message projectId projectContext existingFiles s =
     (if \<not> isConfigured anthropic then (failed 503 ''AI service not configured'', s)
      else
        (let result = fst (generateCode anthropic message projectContext existingFiles) in
         if \<not> success result then (failed 500 ''AI generation failed'', s)
         else
           case projectId of
             None \<Rightarrow> (succeeded 200 (result, None), s)
           | Some pid \<Rightarrow>
               (case saveConversation newId pid userId message
                       (case code result of Some (JStr t) \<Rightarrow> t | _ \<Rightarrow> [])
                       (case model result of
                          Some m \<Rightarrow> if m = [] then js ''claude-3-5-sonnet'' else m
                        | None \<Rightarrow> js ''claude-3-5-sonnet'')
                       (case usage result of Some u \<Rightarrow> int (total_tokens u) | None \<Rightarrow> 0) s of
                  (Inl e, s1) \<Rightarrow> (succeeded 200 (result, None), s1)
                | (Inr conversation, s1) \<Rightarrow> (succeeded 200 (result, Some conversation), s1))))"

definition post_message_handler ::
  "provider option \<Rightarrow> jsstring \<Rightarrow> jsstring option \<Rightarrow> jsval \<Rightarrow> jsval \<Rightarrow> db
     \<Rightarrow> (ai_result \<times> conversation option) response \<times> db" where
  "post_message_handler anthropic newId x_user_id message projectId s =
     (let userId = getUserId x_user_id in
      if length (validateChatMessage message projectId) > 0 then
        (failed 400 ''Validation failed'', s)
      else if truthy projectId then
        (if \<not> uuidRegex_test (the_string projectId) then
           (failed 400 ''Invalid project ID format'', s)
         else
           case getProject (the_string projectId) userId s of
             (Inl e, s1) \<Rightarrow> (failed 500 ''Failed to process message'', s1)
           | (Inr None, s1) \<Rightarrow> (failed 404 ''Project not found'', s1)
           | (Inr (Some project), s1) \<Rightarrow>
               (case getProjectFiles (the_string projectId) userId s1 of
                  (Inl e, s2) \<Rightarrow> (failed 500 ''Failed to process message'', s2)
                | (Inr existingFiles, s2) \<Rightarrow>
                    generate_and_save anthropic newId userId (trim (the_string message))
                      (Some (the_string projectId)) (projectContext_of project)
                      existingFiles s2))
      else
        generate_and_save anthropic newId userId (trim (the_string message)) None [] [] s)"

subsection \<open>POST / (create project)\<close>

definition validateProjectData :: "jsval \<Rightarrow> jsval \<Rightarrow> jsval \<Rightarrow> jsstring list" where
  "validateProjectData name description template =
     (if \<not> truthy name \<or> \<not> is_string name \<or> length (trim (the_string name)) = 0
      then [js ''Project name is required and must be a non-empty string''] else [])
     @ (if truthy name \<and> length_exceeds name 255
        then [js ''Project name must be less than 255 characters''] else [])
     @ (if truthy description \<and> \<not> is_string description
        then [js ''Description must be a string''] else [])
     @ (if truthy template \<and> \<not> is_string template
        then [js ''Template must be a string''] else [])"

text \<open>\<open>description?.trim() || ""\<close>: nothing to call on \<open>null\<close> or \<open>undefined\<close>; a value that
  is neither those nor a string has no \<open>trim\<close>, and the call throws.\<close>

definition trimmed_description :: "jsval \<Rightarrow> exn + jsstring" where
  "trimmed_description description =
     (case description of
        JUndefined \<Rightarrow> Inr []
      | JNull \<Rightarrow> Inr []
      | JStr d \<Rightarrow> Inr (trim d)
      | _ \<Rightarrow> Inl TypeError)"

record template_file =
  tf_path :: jsstring
  tf_name :: jsstring
  tf_type :: jsstring
  tf_content :: jsstring

text \<open>The loop over the template files: a file whose save throws is skipped.\<close>

fun save_template_files ::
  "jsstring \<Rightarrow> template_file list \<Rightarrow> db \<Rightarrow> project_file list \<times> db" where
  "save_template_files projectId [] s = ([], s)"
| "save_template_files projectId (file # files) s =
     (case saveProjectFile projectId (tf_path file) (tf_name file) (JStr (tf_content file))
             (tf_type file) s of
        (Inl e, s1) \<Rightarrow> save_template_files projectId files s1
      | (Inr createdFile, s1) \<Rightarrow>
          (case save_template_files projectId files s1 of
             (createdFiles, s2) \<Rightarrow> (createdFile # createdFiles, s2)))"

text \<open>
  \<open>getTemplateFiles\<close> is a parameter of the handler: it gives the files of a template
  name, or \<open>None\<close> when the table lookup yields a value that the loop cannot iterate
  (an inherited property of the table object), which makes the loop throw.
  \<open>newId\<close> is the id the engine gives the project row.
\<close>

definition create_project_handler ::
  "(jsstring \<Rightarrow> template_file list option) \<Rightarrow> jsstring \<Rightarrow> jsstring option
     \<Rightarrow> jsval \<Rightarrow> jsval \<Rightarrow> jsval \<Rightarrow> db \<Rightarrow> (project \<times> project_file list) response \<times> db" where
  "create_project_handler getTemplateFiles newId x_user_id name description template s =
     (let userId = getUserId x_user_id in
      if length (validateProjectData name description template) > 0 then
        (failed 400 ''Validation failed'', s)
      else
        case trimmed_description description of
          Inl e \<Rightarrow> (failed 500 ''Failed to create project'', s)
        | Inr description' \<Rightarrow>
            (case createProject newId userId (trim (the_string name)) description' template s of
               (Inl e, s1) \<Rightarrow> (failed 500 ''Failed to create project'', s1)
             | (Inr project, s1) \<Rightarrow>
                 if truthy template then
                   (case getTemplateFiles (the_string template) of
                      None \<Rightarrow> (failed 500 ''Failed to create project'', s1)
                    | Some templateFiles \<Rightarrow>
                        (case save_template_files (p_id project) templateFiles s1 of
                           (createdFiles, s2) \<Rightarrow> (succeeded 201 (project, createdFiles), s2)))
                 else (succeeded 201 (project, []), s1)))"

section \<open>Predicates of the specification\<close>

text \<open>The user owns the project: some project row has that id and that owner.\<close>

definition owns :: "db \<Rightarrow> jsstring \<Rightarrow> jsstring \<Rightarrow> bool" where
  "owns s userId projectId =
     list_ex (\<lambda>p. p_id p = projectId \<and> p_user_id p = userId) (projects s)"

text \<open>The conversations that the FROM, JOIN and WHERE clauses of getConversations select
  for a project and a user, before the ordering and the limit.\<close>

definition candidate_conversations :: "db \<Rightarrow> jsstring \<Rightarrow> jsstring \<Rightarrow> conversation list" where
  "candidate_conversations s projectId userId =
     [c. c \<leftarrow> conversations s, p \<leftarrow> projects s,
         c_project_id c = p_id p \<and> c_project_id c = projectId \<and> p_user_id p = userId]"

text \<open>
  The failure a generation call is to return when the gateway has no credential: not a
  success, an error text that starts with the words \<open>AI service not configured\<close>, no
  \<open>code\<close> property, and no request sent to the provider.
\<close>

definition not_configured_failure :: "ai_result \<times> ai_request list \<Rightarrow> bool" where
  "not_configured_failure r =
     (success (fst r) = False
      \<and> (case error (fst r) of
            None \<Rightarrow> False
          | Some m \<Rightarrow> take (length (js ''AI service not configured'')) m
                        = js ''AI service not configured'')
      \<and> code (fst r) = None
      \<and> snd r = [])"

section \<open>An example state\<close>

text \<open>Alice owns one project, with one file and two conversations.\<close>

definition example_id :: jsstring where
  "example_id = js ''123e4567-e89b-42d3-a456-426614174000''"

definition example_project :: project where
  "example_project =
     \<lparr>p_id = example_id, p_user_id = js ''alice'', p_name = js ''Demo'', p_description = [],
      p_template_used = JNull, p_status = js ''active'', p_settings = JNull,
      p_created_at = 1, p_updated_at = 4\<rparr>"

definition example_file :: project_file where
  "example_file =
     \<lparr>pf_project_id = example_id, pf_file_path = js ''a.txt'', pf_file_name = js ''a.txt'',
      pf_content = [0x68, 0x69], pf_file_type = js ''text'', pf_size_bytes = 2,
      pf_created_at = 2, pf_updated_at = 2\<rparr>"

definition example_conversation :: "nat \<Rightarrow> conversation" where
  "example_conversation t =
     \<lparr>c_id = show_nat t, c_project_id = example_id, c_user_id = js ''alice'',
      c_message = js ''hello'', c_response = js ''hi there'',
      c_ai_model = js ''claude-3-5-sonnet'', c_tokens_used = 7, c_created_at = t\<rparr>"

definition example_db :: db where
  "example_db =
     \<lparr>projects = [example_project], project_files = [example_file],
      conversations = [example_conversation 3, example_conversation 4],
      issued = [], now = 5\<rparr>"

text \<open>The user \<open>demo-user\<close> owns one project, with three conversations that are stored
  out of chronological order.\<close>

definition example_demo_id :: jsstring where
  "example_demo_id = js ''9b2e1c3a-5d4f-4a6b-8c7d-0e1f2a3b4c5d''"

definition example_demo_project :: project where
  "example_demo_project =
     \<lparr>p_id = example_demo_id, p_user_id = js ''demo-user'', p_name = js ''Playground'',
      p_description = [], p_template_used = JNull, p_status = js ''active'',
      p_settings = JNull, p_created_at = 1, p_updated_at = 4\<rparr>"

definition example_demo_conversation :: "nat \<Rightarrow> conversation" where
  "example_demo_conversation t =
     \<lparr>c_id = show_nat t, c_project_id = example_demo_id, c_user_id = js ''demo-user'',
      c_message = js ''hello'', c_response = js ''hi there'',
      c_ai_model = js ''claude-3-5-sonnet'', c_tokens_used = 7, c_created_at = t\<rparr>"

definition example_demo_db :: db where
  "example_demo_db =
     \<lparr>projects = [example_demo_project], project_files = [],
      conversations = [example_demo_conversation 4, example_demo_conversation 2,
                       example_demo_conversation 3],
      issued = [], now = 5\<rparr>"

text \<open>A provider that answers every request, and a template table with one file.\<close>

definition example_provider :: provider where
  "example_provider req = Returns (js ''export default 1'') 3 4"

definition example_templates :: "jsstring \<Rightarrow> template_file list option" where
  "example_templates t =
     Some [\<lparr>tf_path = js ''package.json'', tf_name = js ''package.json'', tf_type = js ''json'',
            tf_content = js ''{}''\<rparr>]"

section \<open>Properties of the query builder\<close>

lemma update_step_pair:
  "update_step (fs, vs, pc) (k, v) =
     (fs @ [k @ js '' = $'' @ show_nat pc], vs @ [v], Suc pc)"
  by (simp add: update_step_def)

lemma update_loop:
  "foldl update_step (fs, vs, pc) updates =
     (fs @ map (\<lambda>(i, col). col @ js '' = $'' @ show_nat i) (enumerate pc (map fst updates)),
      vs @ map snd updates,
      pc + length updates)"
proof (induction updates arbitrary: fs vs pc)
  case Nil
  show ?case by simp
next
  case (Cons kv updates)
  obtain k v where kv: "kv = (k, v)" by (cases kv)
  show ?case
    by (simp add: kv update_step_pair Cons.IH)
qed

text \<open>
  C1. For a non-empty mapping the builder returns the UPDATE text whose SET clause lists
  exactly the supplied keys in order, the i-th as \<open>key = $i\<close>, followed by
  \<open>updated_at = NOW()\<close>, whose WHERE clause selects on id and user_id with the next two
  placeholders, and whose bind list is the supplied values in the same order followed by
  the project id and the owner: the k-th bind value is the one placeholder \<open>$k\<close> stands for.
\<close>

theorem updateProject_build_statement:
  assumes "updates \<noteq> []"
  shows "updateProject_build projectId userId updates =
           Inr (spec_update_text (map fst updates),
                map snd updates @ [JStr projectId, JStr userId])"
proof -
  have loop: "foldl update_step ([], [], 1) updates =
      (spec_assignments (map fst updates), map snd updates, 1 + length updates)"
    by (simp add: update_loop spec_assignments_def)
  have nonempty: "length (spec_assignments (map fst updates)) \<noteq> 0"
    using assms by (simp add: spec_assignments_def)
  show ?thesis
    unfolding updateProject_build_def loop spec_update_text_def
    using nonempty by simp
qed

theorem updateProject_build_statement_witness:
  "[(js ''name'', JStr (js ''Demo'')), (js ''description'', JNull)] \<noteq> [] \<and>
   updateProject_build (js ''p1'') (js ''u1'')
       [(js ''name'', JStr (js ''Demo'')), (js ''description'', JNull)] =
     Inr (nl @ js ''      UPDATE projects '' @ nl
          @ js ''      SET name = $1, description = $2, updated_at = NOW()'' @ nl
          @ js ''      WHERE id = $3 AND user_id = $4'' @ nl
          @ js ''      RETURNING *'' @ nl
          @ js ''    '',
          [JStr (js ''Demo''), JNull, JStr (js ''p1''), JStr (js ''u1'')])"
  using updateProject_build_statement
          [of "[(js ''name'', JStr (js ''Demo'')), (js ''description'', JNull)]"
              "js ''p1''" "js ''u1''"]
  by (simp add: spec_update_text_def spec_assignments_def show_nat.simps digit_def js_def)

section \<open>Properties of the data-access layer\<close>

lemma query_tables [simp]:
  "projects (query t ps s) = projects s"
  "project_files (query t ps s) = project_files s"
  "conversations (query t ps s) = conversations s"
  "now (query t ps s) = now s"
  by (simp_all add: query_def)

lemma touch_tables [simp]:
  "project_files (touchProject pid s) = project_files s"
  "conversations (touchProject pid s) = conversations s"
  by (simp_all add: touchProject_def Let_def)

lemma deleted_not_active: "js ''deleted'' \<noteq> js ''active''"
  by (simp add: js_def)

text \<open>
  C2. On the empty mapping updateProject returns the usage error and the state it was
  given: no statement has been handed to the storage engine.
\<close>

theorem updateProject_empty:
  "updateProject assign projectId userId [] s = (Inl (Error (js ''No fields to update'')), s)
   \<and> issued (snd (updateProject assign projectId userId [] s)) = issued s"
  by (simp add: updateProject_def updateProject_build_def)

lemma updateProject_nonempty_issues:
  "updates \<noteq> [] \<Longrightarrow>
     issued (snd (updateProject assign projectId userId updates s)) \<noteq> issued s"
  using update_loop[of "[]" "[]" 1 updates]
  by (cases updates)
     (auto simp: updateProject_def updateProject_build_def query_def Let_def
        split: option.splits prod.splits)

subsection \<open>Ownership isolation\<close>

lemma join_empty:
  "(\<And>x y. x \<in> set xs \<Longrightarrow> y \<in> set ys \<Longrightarrow> \<not> P x y) \<Longrightarrow> [x. x \<leftarrow> xs, y \<leftarrow> ys, P x y] = []"
  by auto

text \<open>
  C3. When every project row with id \<open>pid\<close> belongs to A and B is another user, then B's
  getProject, getProjectFiles, getProjectFile and getConversations on \<open>pid\<close> give what they
  give on an id \<open>pid'\<close> that no project row has: absent, the empty list, absent, and the
  empty list (or, for a negative limit, the engine's error in both cases).
\<close>

theorem ownership_isolation:
  assumes owner: "\<forall>p\<in>set (projects s). p_id p = pid \<longrightarrow> p_user_id p = A"
    and other: "A \<noteq> B"
    and unknown: "\<forall>p\<in>set (projects s). p_id p \<noteq> pid'"
  shows "(fst (getProject pid B s) = Inr None \<and> fst (getProject pid' B s) = Inr None)
    \<and> (fst (getProjectFiles pid B s) = Inr [] \<and> fst (getProjectFiles pid' B s) = Inr [])
    \<and> (fst (getProjectFile pid path B s) = Inr None
        \<and> fst (getProjectFile pid' path B s) = Inr None)
    \<and> (fst (getConversations pid B limit s) = (if limit < 0 then Inl StorageError else Inr [])
        \<and> fst (getConversations pid' B limit s)
            = (if limit < 0 then Inl StorageError else Inr []))"
proof -
  have nohit: "\<forall>p\<in>set (projects s). p_id p = pid \<longrightarrow> p_user_id p \<noteq> B"
    using owner other by auto
  have nohit': "\<forall>p\<in>set (projects s). p_id p \<noteq> pid'"
    using unknown by auto
  have f1: "filter (\<lambda>p. p_id p = pid \<and> p_user_id p = B \<and> p_status p = js ''active'')
              (projects s) = []"
    using nohit by (auto simp: filter_empty_conv)
  have f2: "filter (\<lambda>p. p_id p = pid' \<and> p_user_id p = B \<and> p_status p = js ''active'')
              (projects s) = []"
    using nohit' by (auto simp: filter_empty_conv)
  have g: "fst (getProject pid B s) = Inr None \<and> fst (getProject pid' B s) = Inr None"
    by (simp add: getProject_def f1 f2 rows0_def)
  have j1: "[pf. pf \<leftarrow> project_files s, p \<leftarrow> projects s,
               pf_project_id pf = p_id p \<and> pf_project_id pf = pid \<and> p_user_id p = B] = []"
    by (rule join_empty) (use nohit in fastforce)
  have j2: "[pf. pf \<leftarrow> project_files s, p \<leftarrow> projects s,
               pf_project_id pf = p_id p \<and> pf_project_id pf = pid' \<and> p_user_id p = B] = []"
    by (rule join_empty) (use nohit' in fastforce)
  have fs: "fst (getProjectFiles pid B s) = Inr [] \<and> fst (getProjectFiles pid' B s) = Inr []"
    unfolding getProjectFiles_def Let_def j1 j2 by simp
  have k1: "[pf. pf \<leftarrow> project_files s, p \<leftarrow> projects s,
               pf_project_id pf = p_id p \<and> pf_project_id pf = pid
               \<and> pf_file_path pf = path \<and> p_user_id p = B] = []"
    by (rule join_empty) (use nohit in fastforce)
  have k2: "[pf. pf \<leftarrow> project_files s, p \<leftarrow> projects s,
               pf_project_id pf = p_id p \<and> pf_project_id pf = pid'
               \<and> pf_file_path pf = path \<and> p_user_id p = B] = []"
    by (rule join_empty) (use nohit' in fastforce)
  have f: "fst (getProjectFile pid path B s) = Inr None
           \<and> fst (getProjectFile pid' path B s) = Inr None"
    unfolding getProjectFile_def Let_def k1 k2 by (simp add: rows0_def)
  have c1: "[c. c \<leftarrow> conversations s, p \<leftarrow> projects s,
               c_project_id c = p_id p \<and> c_project_id c = pid \<and> p_user_id p = B] = []"
    by (rule join_empty) (use nohit in fastforce)
  have c2: "[c. c \<leftarrow> conversations s, p \<leftarrow> projects s,
               c_project_id c = p_id p \<and> c_project_id c = pid' \<and> p_user_id p = B] = []"
    by (rule join_empty) (use nohit' in fastforce)
  have cs: "fst (getConversations pid B limit s)
              = (if limit < 0 then Inl StorageError else Inr [])
          \<and> fst (getConversations pid' B limit s)
              = (if limit < 0 then Inl StorageError else Inr [])"
    unfolding getConversations_def Let_def c1 c2 by (simp add: order_by_desc_def)
  from g fs f cs show ?thesis by blast
qed

subsection \<open>The size of a saved file\<close>

lemma encode_code_point_length:
  "length (encode_code_point c) =
     (if c < 0x80 then 1 else if c < 0x800 then 2 else if c < 0x10000 then 3 else 4)"
  by (simp add: encode_code_point_def)

lemma scalar_of_unit_length:
  "length (encode_code_point (scalar_of_unit u)) = unit_bytes u"
proof -
  have lt: "unat u < 0x10000"
    using unsigned_less[of u, where ?'a = nat] by simp
  have a: "(u < 0x80) = (unat u < 0x80)" by (simp add: word_less_nat_alt)
  have b: "(u < 0x800) = (unat u < 0x800)" by (simp add: word_less_nat_alt)
  have c: "(u < 0xDC00) = (unat u < 0xDC00)" by (simp add: word_less_nat_alt)
  have d: "(0xD800 \<le> u) = (0xD800 \<le> unat u)" by (simp add: word_le_nat_alt)
  have e: "(u < 0xE000) = (unat u < 0xE000)" by (simp add: word_less_nat_alt)
  have f: "(0xDC00 \<le> u) = (0xDC00 \<le> unat u)" by (simp add: word_le_nat_alt)
  show ?thesis
    using lt
    by (auto simp: encode_code_point_length scalar_of_unit_def unit_bytes_def
          is_high_surrogate_def is_low_surrogate_def a b c d e f)
qed

lemma surrogate_pair_length:
  "length (encode_code_point (0x10000 + (unat u - 0xD800) * 0x400 + (unat v - 0xDC00))) = 4"
  by (simp add: encode_code_point_length)

lemma utf8_encode_length: "length (utf8_encode t) = utf8_length t"
  by (induction t rule: utf8_encode.induct)
     (simp_all add: scalar_of_unit_length surrogate_pair_length)

text \<open>
  C4. A call with a string content returns a row whose content is the UTF-8 encoding of
  the argument and whose size_bytes is the number of those bytes; the row is in the table
  afterwards, every row of the table with the saved (project_id, file_path) holds that
  content and that size, whether the call inserted or overwrote, and if size_bytes was
  the byte length of the content in every row before the call, it is so after it. The
  size is computed from the content argument; the operation takes no size.
\<close>

theorem saveProjectFile_size_bytes:
  "\<exists>row. fst (saveProjectFile projectId filePath fileName (JStr text) fileType s) = Inr row
     \<and> pf_content row = utf8_encode text
     \<and> pf_size_bytes row = length (utf8_encode text)
     \<and> row \<in> set (project_files
                      (snd (saveProjectFile projectId filePath fileName (JStr text) fileType s)))
     \<and> (\<forall>r\<in>set (project_files
                      (snd (saveProjectFile projectId filePath fileName (JStr text) fileType s))).
           pf_project_id r = projectId \<and> pf_file_path r = filePath \<longrightarrow>
             pf_content r = utf8_encode text \<and> pf_size_bytes r = length (pf_content r))
     \<and> ((\<forall>r\<in>set (project_files s). pf_size_bytes r = length (pf_content r)) \<longrightarrow>
         (\<forall>r\<in>set (project_files
                      (snd (saveProjectFile projectId filePath fileName (JStr text) fileType s))).
            pf_size_bytes r = length (pf_content r)))"
proof (cases "filter (\<lambda>pf. pf_project_id pf = projectId \<and> pf_file_path pf = filePath)
                (project_files s)")
  case Nil
  then have none: "\<forall>r\<in>set (project_files s).
                     \<not> (pf_project_id r = projectId \<and> pf_file_path r = filePath)"
    by (simp add: filter_empty_conv)
  show ?thesis
    using none
    by (auto simp: saveProjectFile_def byteLength_def content_bytes_def Let_def Nil
          utf8_encode_length)
next
  case (Cons r rs)
  then have "r \<in> set (filter (\<lambda>pf. pf_project_id pf = projectId \<and> pf_file_path pf = filePath)
                        (project_files s))"
    by simp
  then have r: "r \<in> set (project_files s)" "pf_project_id r = projectId"
      "pf_file_path r = filePath"
    by simp_all
  show ?thesis
    using r
    by (auto simp: saveProjectFile_def byteLength_def content_bytes_def Let_def Cons
          utf8_encode_length image_iff)
qed

lemma saveProjectFile_not_string:
  "\<not> is_string content \<Longrightarrow>
     saveProjectFile projectId filePath fileName content fileType s = (Inl TypeError, s)"
  by (cases content) (simp_all add: saveProjectFile_def byteLength_def is_string_def)

subsection \<open>Conversation history\<close>

lemma sorted_last_rows:
  "sorted (map key (rev (take n (order_by_desc key rows))))"
proof -
  have "rev (take n (order_by_desc key rows))
          = drop (length rows - n) (sort_key key rows)"
    by (simp add: order_by_desc_def rev_take)
  moreover have "sorted (map key (sort_key key rows))"
    by (rule sorted_sort_key)
  ultimately show ?thesis
    by (simp add: drop_map[symmetric] sorted_wrt_drop del: drop_map)
qed

lemma effective_limit_le: "effective_limit parsed \<le> 100"
  by (simp add: effective_limit_def Let_def)

lemma getConversations_candidates:
  "fst (getConversations projectId userId limit s) =
     (if limit < 0 then Inl StorageError
      else Inr (rev (take (nat limit)
                  (order_by_desc c_created_at (candidate_conversations s projectId userId)))))"
  by (simp add: getConversations_def candidate_conversations_def Let_def)

lemma most_recent_rows:
  fixes key :: "'a \<Rightarrow> nat"
  shows "\<exists>older. mset (older @ rev (take n (order_by_desc key rows))) = mset rows
           \<and> (\<forall>x\<in>set older. \<forall>r\<in>set (rev (take n (order_by_desc key rows))). key x \<le> key r)"
proof -
  let ?sorted = "sort_key key rows"
  let ?k = "length rows - n"
  have split: "rev (take n (order_by_desc key rows)) = drop ?k ?sorted"
    by (simp add: order_by_desc_def rev_take)
  have whole: "take ?k ?sorted @ drop ?k ?sorted = ?sorted" by simp
  have parts: "map key ?sorted = map key (take ?k ?sorted) @ map key (drop ?k ?sorted)"
    by (simp only: map_append[symmetric] append_take_drop_id)
  have "sorted (map key ?sorted)" by (rule sorted_sort_key)
  then have "sorted (map key (take ?k ?sorted) @ map key (drop ?k ?sorted))"
    by (simp only: parts)
  then have "\<forall>a\<in>set (map key (take ?k ?sorted)). \<forall>b\<in>set (map key (drop ?k ?sorted)). a \<le> b"
    by (simp only: sorted_append) blast
  then have le: "\<forall>x\<in>set (take ?k ?sorted). \<forall>r\<in>set (drop ?k ?sorted). key x \<le> key r"
    by (simp only: set_map) blast
  have "mset (take ?k ?sorted @ drop ?k ?sorted) = mset rows"
    unfolding whole by simp
  with le show ?thesis unfolding split by blast
qed

lemma length_last_rows:
  "length (rev (take n (order_by_desc key rows))) = min n (length rows)"
  by (simp add: order_by_desc_def min.commute)

text \<open>
  C5. With a positive limit getConversations returns a list in non-decreasing created_at
  order, of at most limit rows, and these are the most recent ones: their number is the
  smaller of limit and the number of conversations the join selects, together with the
  rows left out they make up exactly the selected conversations, and no row left out is
  later than a returned one. The limit the conversation-history handler passes is at most
  100, and when that handler succeeds its data is what getConversations returns for the
  caller at that clamped limit, in non-decreasing created_at order, at most 100 rows.
\<close>

theorem getConversations_chronological:
  assumes "0 < limit"
  shows "(\<exists>rows older. fst (getConversations projectId userId limit s) = Inr rows
            \<and> sorted (map c_created_at rows) \<and> int (length rows) \<le> limit
            \<and> length rows = min (nat limit) (length (candidate_conversations s projectId userId))
            \<and> mset (older @ rows) = mset (candidate_conversations s projectId userId)
            \<and> (\<forall>x\<in>set older. \<forall>r\<in>set rows. c_created_at x \<le> c_created_at r))
    \<and> effective_limit parsed \<le> 100
    \<and> (res_success (fst (get_conversations_handler x_user_id projectId' parsed s)) \<longrightarrow>
         (\<exists>rows. res_data (fst (get_conversations_handler x_user_id projectId' parsed s))
                    = Some rows
            \<and> fst (getConversations projectId' (getUserId x_user_id) (effective_limit parsed) s)
                = Inr rows
            \<and> sorted (map c_created_at rows) \<and> length rows \<le> 100))"
proof -
  let ?cands = "candidate_conversations s projectId userId"
  let ?rows = "rev (take (nat limit) (order_by_desc c_created_at ?cands))"
  have r: "fst (getConversations projectId userId limit s) = Inr ?rows"
    using assms by (simp add: getConversations_candidates)
  have srt: "sorted (map c_created_at ?rows)" by (rule sorted_last_rows)
  have len: "length ?rows = min (nat limit) (length ?cands)" by (rule length_last_rows)
  then have le: "int (length ?rows) \<le> limit" using assms by simp
  from most_recent_rows[of "nat limit" c_created_at ?cands] obtain older where
    older: "mset (older @ ?rows) = mset ?cands"
      "\<forall>x\<in>set older. \<forall>r\<in>set ?rows. c_created_at x \<le> c_created_at r"
    by blast
  from r srt le len older
  have a: "\<exists>rows older. fst (getConversations projectId userId limit s) = Inr rows
            \<and> sorted (map c_created_at rows) \<and> int (length rows) \<le> limit
            \<and> length rows = min (nat limit) (length ?cands)
            \<and> mset (older @ rows) = mset ?cands
            \<and> (\<forall>x\<in>set older. \<forall>r\<in>set rows. c_created_at x \<le> c_created_at r)"
    by blast
  have b: "res_success (fst (get_conversations_handler x_user_id projectId' parsed s)) \<longrightarrow>
         (\<exists>rows. res_data (fst (get_conversations_handler x_user_id projectId' parsed s))
                    = Some rows
            \<and> fst (getConversations projectId' (getUserId x_user_id) (effective_limit parsed) s)
                = Inr rows
            \<and> sorted (map c_created_at rows) \<and> length rows \<le> 100)"
    using effective_limit_le[of parsed]
    by (auto simp: get_conversations_handler_def Let_def failed_def succeeded_def
          getConversations_def sorted_last_rows getProject_def
          split: if_splits prod.splits sum.splits option.splits)
  from a b effective_limit_le[of parsed] show ?thesis by blast
qed

subsection \<open>Soft delete\<close>

lemma deleteProject_projects:
  "projects (snd (deleteProject pid uid s)) =
     map (\<lambda>p. if p_id p = pid \<and> p_user_id p = uid
               then p\<lparr>p_status := js ''deleted'', p_updated_at := now s\<rparr> else p) (projects s)"
  by (simp add: deleteProject_def Let_def)

lemma deleteProject_children:
  "project_files (snd (deleteProject pid uid s)) = project_files s"
  "conversations (snd (deleteProject pid uid s)) = conversations s"
  by (simp_all add: deleteProject_def Let_def)

lemma deleteProject_keys:
  "map (\<lambda>p. (p_id p, p_user_id p)) (projects (snd (deleteProject pid uid s)))
     = map (\<lambda>p. (p_id p, p_user_id p)) (projects s)"
  by (simp add: deleteProject_projects o_def if_distrib cong: if_cong)

text \<open>The ownership joins read a project row only through its id and its owner.\<close>

lemma join_keys:
  assumes "map key ps' = map key ps"
  shows "concat (map (\<lambda>x. concat (map (\<lambda>p. if P x (key p) then [x] else []) ps')) xs)
       = concat (map (\<lambda>x. concat (map (\<lambda>p. if P x (key p) then [x] else []) ps)) xs)"
proof -
  have "\<And>x qs. map (\<lambda>p. if P x (key p) then [x] else []) qs
                 = map (\<lambda>k. if P x k then [x] else []) (map key qs)"
    by simp
  then show ?thesis using assms by presburger
qed

lemma getProjectFiles_keys:
  assumes "map (\<lambda>p. (p_id p, p_user_id p)) (projects s')
             = map (\<lambda>p. (p_id p, p_user_id p)) (projects s)"
    and "project_files s' = project_files s"
  shows "fst (getProjectFiles pid uid s') = fst (getProjectFiles pid uid s)"
  using join_keys[OF assms(1),
          of "\<lambda>pf k. pf_project_id pf = fst k \<and> pf_project_id pf = pid \<and> snd k = uid"
             "project_files s"] assms(2)
  by (simp add: getProjectFiles_def Let_def)

lemma getProjectFile_keys:
  assumes "map (\<lambda>p. (p_id p, p_user_id p)) (projects s')
             = map (\<lambda>p. (p_id p, p_user_id p)) (projects s)"
    and "project_files s' = project_files s"
  shows "fst (getProjectFile pid path uid s') = fst (getProjectFile pid path uid s)"
  using join_keys[OF assms(1),
          of "\<lambda>pf k. pf_project_id pf = fst k \<and> pf_project_id pf = pid
                \<and> pf_file_path pf = path \<and> snd k = uid" "project_files s"] assms(2)
  by (simp add: getProjectFile_def Let_def)

lemma getConversations_keys:
  assumes "map (\<lambda>p. (p_id p, p_user_id p)) (projects s')
             = map (\<lambda>p. (p_id p, p_user_id p)) (projects s)"
    and "conversations s' = conversations s"
  shows "fst (getConversations pid uid limit s') = fst (getConversations pid uid limit s)"
  using join_keys[OF assms(1),
          of "\<lambda>c k. c_project_id c = fst k \<and> c_project_id c = pid \<and> snd k = uid"
             "conversations s"] assms(2)
  by (simp add: getConversations_def Let_def)

lemma deleteProject_member:
  assumes "p \<in> set (projects (snd (deleteProject projectId userId s)))"
  shows "\<exists>p0. p0 \<in> set (projects s)
           \<and> p = (if p_id p0 = projectId \<and> p_user_id p0 = userId
                   then p0\<lparr>p_status := js ''deleted'', p_updated_at := now s\<rparr> else p0)"
  using assms unfolding deleteProject_projects set_map image_iff by blast

lemma deleteProject_not_active:
  "\<forall>p\<in>set (projects (snd (deleteProject projectId userId s))).
      p_id p = projectId \<and> p_user_id p = userId \<longrightarrow> p_status p \<noteq> js ''active''"
proof (intro ballI impI)
  fix p
  assume mem: "p \<in> set (projects (snd (deleteProject projectId userId s)))"
    and hit: "p_id p = projectId \<and> p_user_id p = userId"
  from deleteProject_member[OF mem] obtain p0 where
      p: "p = (if p_id p0 = projectId \<and> p_user_id p0 = userId
                 then p0\<lparr>p_status := js ''deleted'', p_updated_at := now s\<rparr> else p0)"
    by blast
  show "p_status p \<noteq> js ''active''"
  proof (cases "p_id p0 = projectId \<and> p_user_id p0 = userId")
    case True
    then have "p = p0\<lparr>p_status := js ''deleted'', p_updated_at := now s\<rparr>"
      using p by presburger
    then have "p_status p = js ''deleted''" by simp
    then show ?thesis using deleted_not_active by presburger
  next
    case False
    then have "p = p0" using p by presburger
    then show ?thesis using hit False by blast
  qed
qed

lemma getProjects_without:
  assumes "\<forall>p\<in>set (projects s'). p_id p = projectId \<and> p_user_id p = userId
             \<longrightarrow> p_status p \<noteq> js ''active''"
  shows "\<exists>rows. fst (getProjects userId s') = Inr rows
          \<and> projectId \<notin> set (map (\<lambda>q. p_id (ps_project q)) rows)"
  using assms
  by (auto simp: getProjects_def Let_def summary_def order_by_desc_def)

lemma getProjectFiles_all:
  assumes "q \<in> set (projects s)" "p_id q = projectId \<and> p_user_id q = userId"
  shows "\<exists>files. fst (getProjectFiles projectId userId s) = Inr files
          \<and> set files = {pf \<in> set (project_files s). pf_project_id pf = projectId}"
  using assms
  by (auto simp: getProjectFiles_def Let_def)

text \<open>
  C6. When deleteProject returns a row: the projects table has the same ids in the same
  places (no row is removed), the returned row is in it with the given id and owner and
  status deleted; getProjects of the owner lists no project of that id and getProject
  returns absent; the file and conversation tables are untouched, and getProjectFiles,
  getProjectFile and getConversations of the owner return what they returned before the
  deletion, getProjectFiles every file row of the project.
\<close>

theorem deleteProject_soft:
  assumes ok: "fst (deleteProject projectId userId s) = Inr (Some row)"
  shows "map p_id (projects (snd (deleteProject projectId userId s))) = map p_id (projects s)
    \<and> row \<in> set (projects (snd (deleteProject projectId userId s)))
    \<and> p_id row = projectId \<and> p_user_id row = userId \<and> p_status row = js ''deleted''
    \<and> (\<exists>rows. fst (getProjects userId (snd (deleteProject projectId userId s))) = Inr rows
          \<and> projectId \<notin> set (map (\<lambda>q. p_id (ps_project q)) rows))
    \<and> fst (getProject projectId userId (snd (deleteProject projectId userId s))) = Inr None
    \<and> project_files (snd (deleteProject projectId userId s)) = project_files s
    \<and> conversations (snd (deleteProject projectId userId s)) = conversations s
    \<and> fst (getProjectFiles projectId userId (snd (deleteProject projectId userId s)))
        = fst (getProjectFiles projectId userId s)
    \<and> fst (getProjectFile projectId filePath userId (snd (deleteProject projectId userId s)))
        = fst (getProjectFile projectId filePath userId s)
    \<and> fst (getConversations projectId userId limit (snd (deleteProject projectId userId s)))
        = fst (getConversations projectId userId limit s)
    \<and> (\<exists>files. fst (getProjectFiles projectId userId (snd (deleteProject projectId userId s)))
                   = Inr files
          \<and> set files = {pf \<in> set (project_files s). pf_project_id pf = projectId})"
proof -
  let ?s' = "snd (deleteProject projectId userId s)"
  let ?hit = "\<lambda>p. p_id p = projectId \<and> p_user_id p = userId"
  let ?upd = "\<lambda>p. p\<lparr>p_status := js ''deleted'', p_updated_at := now s\<rparr>"
  from ok have r0: "rows0 (map ?upd (filter ?hit (projects s))) = Some row"
    by (simp add: deleteProject_def Let_def)
  have "\<exists>q. q \<in> set (projects s) \<and> ?hit q \<and> row = ?upd q"
  proof (cases "filter ?hit (projects s)")
    case Nil
    with r0 show ?thesis by (simp add: rows0_def)
  next
    case (Cons a rest)
    then have "a \<in> set (filter ?hit (projects s))" by simp
    then have "a \<in> set (projects s) \<and> ?hit a" by simp
    moreover from r0 Cons have "row = ?upd a" by (simp add: rows0_def)
    ultimately show ?thesis by blast
  qed
  then obtain q where q: "q \<in> set (projects s)" "?hit q" "row = ?upd q"
    by blast
  have ids: "map p_id (projects ?s') = map p_id (projects s)"
    by (simp add: deleteProject_projects o_def if_distrib cong: if_cong)
  have row_in: "row \<in> set (projects ?s')"
    using q by (force simp: deleteProject_projects image_iff)
  have rf1: "p_id row = projectId" using q by simp
  have rf2: "p_user_id row = userId" using q by simp
  have rf3: "p_status row = js ''deleted''" using q by simp
  have gone: "\<forall>p\<in>set (projects ?s'). ?hit p \<longrightarrow> p_status p \<noteq> js ''active''"
    by (rule deleteProject_not_active)
  have gp: "fst (getProject projectId userId ?s') = Inr None"
  proof -
    have "filter (\<lambda>p. p_id p = projectId \<and> p_user_id p = userId \<and> p_status p = js ''active'')
            (projects ?s') = []"
      using gone by (auto simp: filter_empty_conv)
    then show ?thesis by (simp add: getProject_def rows0_def)
  qed
  have gps: "\<exists>rows. fst (getProjects userId ?s') = Inr rows
          \<and> projectId \<notin> set (map (\<lambda>q. p_id (ps_project q)) rows)"
    by (rule getProjects_without[OF gone])
  have keys: "map (\<lambda>p. (p_id p, p_user_id p)) (projects ?s')
                = map (\<lambda>p. (p_id p, p_user_id p)) (projects s)"
    by (rule deleteProject_keys)
  have ch1: "project_files ?s' = project_files s" by (rule deleteProject_children(1))
  have ch2: "conversations ?s' = conversations s" by (rule deleteProject_children(2))
  have files_eq: "fst (getProjectFiles projectId userId ?s')
                    = fst (getProjectFiles projectId userId s)"
    by (rule getProjectFiles_keys[OF keys ch1])
  have file_eq: "fst (getProjectFile projectId filePath userId ?s')
                   = fst (getProjectFile projectId filePath userId s)"
    by (rule getProjectFile_keys[OF keys ch1])
  have conv_eq: "fst (getConversations projectId userId limit ?s')
                   = fst (getConversations projectId userId limit s)"
    by (rule getConversations_keys[OF keys ch2])
  have all_files: "\<exists>files. fst (getProjectFiles projectId userId ?s') = Inr files
          \<and> set files = {pf \<in> set (project_files s). pf_project_id pf = projectId}"
    unfolding files_eq by (rule getProjectFiles_all[OF q(1) q(2)])
  from ids row_in rf1 rf2 rf3 gps gp ch1 ch2 files_eq file_eq conv_eq all_files
  show ?thesis by (intro conjI)
qed

section \<open>Properties of the AI gateway and of the caller identity\<close>

lemma js_append: "js (a @ b) = js a @ js b"
  by (simp add: js_def)

lemma long_message:
  "js ''AI service not configured - please add CLAUDE_API_KEY environment variable''
     = js ''AI service not configured'' @ js '' - please add CLAUDE_API_KEY environment variable''"
  by (simp add: js_append[symmetric])

text \<open>
  C8. When isConfigured is false, each of the four generation calls returns a failure
  whose error text starts with \<open>AI service not configured\<close>, with no \<open>code\<close> property,
  and sends no request to the provider. generateCode and explainCode use the long text,
  suggestImprovements and generateTests the short one.
\<close>

theorem not_configured_short_circuit:
  assumes "\<not> isConfigured anthropic"
  shows "not_configured_failure (generateCode anthropic prompt projectContext files)
    \<and> not_configured_failure (explainCode anthropic code1 language)
    \<and> not_configured_failure (suggestImprovements anthropic code2 context2)
    \<and> not_configured_failure (generateTests anthropic code3 framework)
    \<and> error (fst (generateCode anthropic prompt projectContext files))
        = Some (js ''AI service not configured - please add CLAUDE_API_KEY environment variable'')
    \<and> error (fst (explainCode anthropic code1 language))
        = Some (js ''AI service not configured - please add CLAUDE_API_KEY environment variable'')
    \<and> error (fst (suggestImprovements anthropic code2 context2))
        = Some (js ''AI service not configured'')
    \<and> error (fst (generateTests anthropic code3 framework))
        = Some (js ''AI service not configured'')"
proof -
  from assms have none: "anthropic = None" by (simp add: isConfigured_def)
  show ?thesis
    unfolding none
    by (simp add: not_configured_failure_def generateCode_def explainCode_def
          suggestImprovements_def generateTests_def no_result_def long_message)
qed

text \<open>
  C9. What the gateway does when the provider throws. explainCode, suggestImprovements and
  generateTests return the provider's own message whatever the status: a 401 and a 429
  with the same message give the same result, and there is no \<open>code\<close>. generateCode
  replaces the message for the statuses 401, 429 and 400 and reports the status.
\<close>

theorem provider_error_unclassified:
  "fst (explainCode (Some (\<lambda>req. Throws status message)) code1 language)
     = no_result\<lparr>success := False, error := Some message\<rparr>
   \<and> fst (suggestImprovements (Some (\<lambda>req. Throws status message)) code2 context2)
     = no_result\<lparr>success := False, error := Some message\<rparr>
   \<and> fst (generateTests (Some (\<lambda>req. Throws status message)) code3 framework)
     = no_result\<lparr>success := False, error := Some message\<rparr>
   \<and> fst (explainCode (Some (\<lambda>req. Throws (Some 401) (js ''request failed''))) code1 language)
     = fst (explainCode (Some (\<lambda>req. Throws (Some 429) (js ''request failed''))) code1 language)
   \<and> fst (generateCode (Some (\<lambda>req. Throws (Some 401) (js ''request failed''))) prompt ctx files)
     = no_result\<lparr>success := False,
         error := Some (js ''Invalid API key - please check your CLAUDE_API_KEY environment variable''),
         code := Some (JNum 401)\<rparr>
   \<and> fst (generateCode (Some (\<lambda>req. Throws (Some 429) (js ''request failed''))) prompt ctx files)
     = no_result\<lparr>success := False,
         error := Some (js ''Rate limit exceeded - please try again in a moment''),
         code := Some (JNum 429)\<rparr>"
  by (simp add: explainCode_def suggestImprovements_def generateTests_def generateCode_def
        Let_def)

lemma demo_user_nonempty: "js ''demo-user'' \<noteq> []"
  by (simp add: js_def)

lemma getUserId_absent:
  "getUserId None = js ''demo-user''" "getUserId (Some []) = js ''demo-user''"
  "getUserId (Some (js ''demo-user'')) = js ''demo-user''"
  by (simp_all add: getUserId_def demo_user_nonempty)

lemma getProject_found:
  assumes "fst (getProject pid uid s) = Inr (Some project)"
  shows "\<exists>s1. getProject pid uid s = (Inr (Some project), s1)
           \<and> projects s1 = projects s \<and> project_files s1 = project_files s
           \<and> conversations s1 = conversations s \<and> now s1 = now s"
  using assms by (simp add: getProject_def Let_def)

lemma saveProjectFile_row:
  "\<exists>row s2. saveProjectFile pid path name (JStr body) ft s = (Inr row, s2)
         \<and> row \<in> set (project_files s2)
         \<and> pf_project_id row = pid \<and> pf_file_path row = path
         \<and> pf_content row = utf8_encode body"
proof (cases "filter (\<lambda>pf. pf_project_id pf = pid \<and> pf_file_path pf = path) (project_files s)")
  case Nil
  then show ?thesis
    by (simp add: saveProjectFile_def byteLength_def content_bytes_def Let_def)
next
  case (Cons a rest)
  then have "a \<in> set (filter (\<lambda>pf. pf_project_id pf = pid \<and> pf_file_path pf = path)
                         (project_files s))"
    by simp
  then have "a \<in> set (project_files s)" "pf_project_id a = pid" "pf_file_path a = path"
    by simp_all
  then show ?thesis
    by (auto simp: saveProjectFile_def byteLength_def content_bytes_def Let_def Cons image_iff)
qed

lemma save_file_handler_accepts:
  assumes proj: "fst (getProject pid (getUserId hdr) s) = Inr (Some project)"
    and path: "path \<noteq> []" and name: "name \<noteq> []"
  shows "\<exists>row. fst (save_file_handler hdr pid (Some path) (Some name) (JStr body) ft s)
                  = succeeded 200 row
           \<and> row \<in> set (project_files
                           (snd (save_file_handler hdr pid (Some path) (Some name) (JStr body)
                                   ft s)))
           \<and> pf_project_id row = pid \<and> pf_file_path row = path
           \<and> pf_content row = utf8_encode body"
proof -
  let ?ft = "case ft of None \<Rightarrow> js ''text'' | Some t \<Rightarrow> t"
  from getProject_found[OF proj] obtain s1 where
    gp: "getProject pid (getUserId hdr) s = (Inr (Some project), s1)"
    by blast
  from saveProjectFile_row[of pid path name body ?ft s1] obtain row s2 where
    sv: "saveProjectFile pid path name (JStr body) ?ft s1 = (Inr row, s2)"
    and row: "row \<in> set (project_files s2)"
      "pf_project_id row = pid" "pf_file_path row = path" "pf_content row = utf8_encode body"
    by blast
  have h: "save_file_handler hdr pid (Some path) (Some name) (JStr body) ft s
             = (succeeded 200 row, s2)"
    unfolding save_file_handler_def Let_def
    using path name by (simp add: gp sv)
  show ?thesis unfolding h using row by auto
qed

lemma getConversations_returns:
  assumes "0 \<le> limit"
  shows "\<exists>s2. getConversations pid uid limit s1
           = (Inr (rev (take (nat limit)
                    (order_by_desc c_created_at (candidate_conversations s1 pid uid)))), s2)"
  using assms by (simp add: getConversations_def candidate_conversations_def Let_def)

lemma candidate_conversations_cong:
  "projects s1 = projects s \<Longrightarrow> conversations s1 = conversations s
     \<Longrightarrow> candidate_conversations s1 pid uid = candidate_conversations s pid uid"
  by (simp add: candidate_conversations_def)

lemma get_conversations_handler_accepts:
  assumes proj: "fst (getProject pid (getUserId hdr) s) = Inr (Some project)"
    and uuid: "uuidRegex_test pid" and lim: "0 \<le> effective_limit parsed"
  shows "\<exists>rows. fst (get_conversations_handler hdr pid parsed s) = succeeded 200 rows
           \<and> fst (getConversations pid (getUserId hdr) (effective_limit parsed) s) = Inr rows"
proof -
  from getProject_found[OF proj] obtain s1 where
    gp: "getProject pid (getUserId hdr) s = (Inr (Some project), s1)"
    and tabs: "projects s1 = projects s" "conversations s1 = conversations s"
    by blast
  let ?rows = "rev (take (nat (effective_limit parsed))
                 (order_by_desc c_created_at (candidate_conversations s pid (getUserId hdr))))"
  from getConversations_returns[OF lim, of pid "getUserId hdr" s1] obtain s2 where
    gc: "getConversations pid (getUserId hdr) (effective_limit parsed) s1 = (Inr ?rows, s2)"
    unfolding candidate_conversations_cong[OF tabs] by blast
  have h: "get_conversations_handler hdr pid parsed s = (succeeded 200 ?rows, s2)"
    unfolding get_conversations_handler_def Let_def
    using uuid by (simp add: gp gc)
  have "fst (getConversations pid (getUserId hdr) (effective_limit parsed) s) = Inr ?rows"
    using lim by (simp add: getConversations_candidates)
  with h show ?thesis by auto
qed

lemma create_project_handler_accepts:
  assumes valid: "validateProjectData name descr template = []"
    and d: "trimmed_description descr = Inr d"
    and plain: "\<not> truthy template"
  shows "\<exists>row. fst (create_project_handler getTemplateFiles newId hdr name descr template s)
                  = succeeded 201 (row, [])
           \<and> row \<in> set (projects (snd (create_project_handler getTemplateFiles newId hdr name
                                           descr template s)))
           \<and> p_id row = newId \<and> p_user_id row = getUserId hdr
           \<and> p_name row = trim (the_string name) \<and> p_status row = js ''active''"
  using assms
  by (auto simp: create_project_handler_def createProject_def Let_def)

lemma generateCode_succeeds:
  assumes "\<forall>req. \<exists>t i out. create req = Returns t i out"
  shows "success (fst (generateCode (Some create) prompt ctx files))"
proof -
  let ?req = "\<lparr>req_model = js ''claude-3-5-sonnet-20241022'', req_max_tokens = 4000,
                req_system = True, req_prompt = GenerateCodePrompt prompt ctx files\<rparr>"
  from assms obtain t i out where "create ?req = Returns t i out" by blast
  then show ?thesis by (simp add: generateCode_def Let_def)
qed

lemma saveConversation_row:
  "\<exists>c s1. saveConversation newId pid uid msg resp mdl tok s = (Inr c, s1)
       \<and> c \<in> set (conversations s1)
       \<and> c_id c = newId \<and> c_project_id c = pid \<and> c_user_id c = uid \<and> c_message c = msg"
  by (simp add: saveConversation_def Let_def)

lemma generate_and_save_accepts:
  assumes "\<forall>req. \<exists>t i out. create req = Returns t i out"
  shows "\<exists>result c. fst (generate_and_save (Some create) newId uid msg (Some pid) ctx files s)
                  = succeeded 200 (result, Some c)
           \<and> c \<in> set (conversations (snd (generate_and_save (Some create) newId uid msg (Some pid)
                                              ctx files s)))
           \<and> c_id c = newId \<and> c_project_id c = pid \<and> c_user_id c = uid \<and> c_message c = msg"
proof -
  let ?result = "fst (generateCode (Some create) msg ctx files)"
  let ?resp = "case code ?result of Some (JStr t) \<Rightarrow> t | _ \<Rightarrow> []"
  let ?mdl = "case model ?result of
                Some m \<Rightarrow> if m = [] then js ''claude-3-5-sonnet'' else m
              | None \<Rightarrow> js ''claude-3-5-sonnet''"
  let ?tok = "case usage ?result of Some u \<Rightarrow> int (total_tokens u) | None \<Rightarrow> 0"
  have ok: "success ?result" by (rule generateCode_succeeds[OF assms])
  from saveConversation_row[of newId pid uid msg ?resp ?mdl ?tok s] obtain c s1 where
    sv: "saveConversation newId pid uid msg ?resp ?mdl ?tok s = (Inr c, s1)"
    and c: "c \<in> set (conversations s1)" "c_id c = newId" "c_project_id c = pid"
      "c_user_id c = uid" "c_message c = msg"
    by blast
  have h: "generate_and_save (Some create) newId uid msg (Some pid) ctx files s
             = (succeeded 200 (?result, Some c), s1)"
    unfolding generate_and_save_def Let_def
    using ok by (simp add: isConfigured_def sv)
  show ?thesis unfolding h using c by auto
qed

lemma uuid_nonempty: "uuidRegex_test t \<Longrightarrow> t \<noteq> []"
  by (auto simp: uuidRegex_test_def)

lemma getProjectFiles_returns:
  "\<exists>files s2. getProjectFiles pid uid s1 = (Inr files, s2)"
  by (simp add: getProjectFiles_def Let_def)

lemma post_message_handler_accepts:
  assumes proj: "fst (getProject pid (getUserId hdr) s) = Inr (Some project)"
    and uuid: "uuidRegex_test pid"
    and valid: "validateChatMessage message (JStr pid) = []"
    and answers: "\<forall>req. \<exists>t i out. create req = Returns t i out"
  shows "\<exists>result c. fst (post_message_handler (Some create) newId hdr message (JStr pid) s)
                  = succeeded 200 (result, Some c)
           \<and> c \<in> set (conversations (snd (post_message_handler (Some create) newId hdr message
                                              (JStr pid) s)))
           \<and> c_id c = newId \<and> c_project_id c = pid \<and> c_user_id c = getUserId hdr
           \<and> c_message c = trim (the_string message)"
proof -
  from getProject_found[OF proj] obtain s1 where
    gp: "getProject pid (getUserId hdr) s = (Inr (Some project), s1)"
    by blast
  from getProjectFiles_returns[of pid "getUserId hdr" s1] obtain files s2 where
    gf: "getProjectFiles pid (getUserId hdr) s1 = (Inr files, s2)"
    by blast
  have t: "truthy (JStr pid)" "the_string (JStr pid) = pid"
    using uuid_nonempty[OF uuid] by (simp_all add: truthy_def the_string_def)
  have h: "post_message_handler (Some create) newId hdr message (JStr pid) s
             = generate_and_save (Some create) newId (getUserId hdr) (trim (the_string message))
                 (Some pid) (projectContext_of project) files s2"
    unfolding post_message_handler_def Let_def
    using uuid by (simp add: valid t gp gf)
  show ?thesis
    unfolding h by (rule generate_and_save_accepts[OF answers])
qed

text \<open>
  C10. When the x-user-id header is absent or empty the caller is \<open>demo-user\<close>, and the
  request is served on that user's data. For an active project of \<open>demo-user\<close>:
  POST /:id/files answers 200 and the file row is in the project afterwards;
  GET /conversations/:projectId answers 200 with what getConversations returns for
  \<open>demo-user\<close>; POST /message, when the provider answers, replies 200 and the conversation
  row is stored with \<open>demo-user\<close> as its user. POST / answers 201 and the new project
  belongs to \<open>demo-user\<close>. In every case each handler returns the response and the state
  it returns for a request that carries the header value \<open>demo-user\<close>.
\<close>

theorem getUserId_default:
  assumes hdr: "x_user_id = None \<or> x_user_id = Some []"
    and proj: "fst (getProject pid (js ''demo-user'') s) = Inr (Some project)"
  shows "getUserId x_user_id = js ''demo-user''
   \<and> (path \<noteq> [] \<and> fname \<noteq> [] \<longrightarrow>
        (\<exists>row. fst (save_file_handler x_user_id pid (Some path) (Some fname) (JStr body)
                      fileType s) = succeeded 200 row
           \<and> row \<in> set (project_files
                           (snd (save_file_handler x_user_id pid (Some path) (Some fname)
                                   (JStr body) fileType s)))
           \<and> pf_project_id row = pid \<and> pf_file_path row = path
           \<and> pf_content row = utf8_encode body))
   \<and> (uuidRegex_test pid \<and> 0 \<le> effective_limit parsed \<longrightarrow>
        (\<exists>rows. fst (get_conversations_handler x_user_id pid parsed s) = succeeded 200 rows
           \<and> fst (getConversations pid (js ''demo-user'') (effective_limit parsed) s) = Inr rows))
   \<and> (uuidRegex_test pid \<and> validateChatMessage message (JStr pid) = []
        \<and> (\<forall>req. \<exists>t i out. create req = Returns t i out) \<longrightarrow>
        (\<exists>result c. fst (post_message_handler (Some create) newId x_user_id message (JStr pid) s)
                       = succeeded 200 (result, Some c)
           \<and> c \<in> set (conversations (snd (post_message_handler (Some create) newId x_user_id
                                              message (JStr pid) s)))
           \<and> c_id c = newId \<and> c_project_id c = pid \<and> c_user_id c = js ''demo-user''
           \<and> c_message c = trim (the_string message)))
   \<and> (validateProjectData name description template = []
        \<and> trimmed_description description = Inr d \<and> \<not> truthy template \<longrightarrow>
        (\<exists>row. fst (create_project_handler getTemplateFiles newId x_user_id name description
                      template s) = succeeded 201 (row, [])
           \<and> row \<in> set (projects (snd (create_project_handler getTemplateFiles newId x_user_id
                                          name description template s)))
           \<and> p_id row = newId \<and> p_user_id row = js ''demo-user''
           \<and> p_name row = trim (the_string name) \<and> p_status row = js ''active''))
   \<and> get_conversations_handler x_user_id projectId parsed' s'
       = get_conversations_handler (Some (js ''demo-user'')) projectId parsed' s'
   \<and> save_file_handler x_user_id projectId filePath fileName content fileType' s'
       = save_file_handler (Some (js ''demo-user'')) projectId filePath fileName content
           fileType' s'
   \<and> post_message_handler anthropic newId' x_user_id message' projectId' s'
       = post_message_handler anthropic newId' (Some (js ''demo-user'')) message' projectId' s'
   \<and> create_project_handler getTemplateFiles' newId' x_user_id name' description' template' s'
       = create_project_handler getTemplateFiles' newId' (Some (js ''demo-user'')) name'
           description' template' s'"
proof -
  from hdr have u: "getUserId x_user_id = js ''demo-user''"
    using getUserId_absent by auto
  from proj have proj': "fst (getProject pid (getUserId x_user_id) s) = Inr (Some project)"
    by (simp only: u)
  have b: "path \<noteq> [] \<and> fname \<noteq> [] \<longrightarrow>
        (\<exists>row. fst (save_file_handler x_user_id pid (Some path) (Some fname) (JStr body)
                      fileType s) = succeeded 200 row
           \<and> row \<in> set (project_files
                           (snd (save_file_handler x_user_id pid (Some path) (Some fname)
                                   (JStr body) fileType s)))
           \<and> pf_project_id row = pid \<and> pf_file_path row = path
           \<and> pf_content row = utf8_encode body)"
    using save_file_handler_accepts[OF proj', of path fname body fileType] by blast
  have c: "uuidRegex_test pid \<and> 0 \<le> effective_limit parsed \<longrightarrow>
        (\<exists>rows. fst (get_conversations_handler x_user_id pid parsed s) = succeeded 200 rows
           \<and> fst (getConversations pid (js ''demo-user'') (effective_limit parsed) s) = Inr rows)"
    using get_conversations_handler_accepts[OF proj', of parsed] unfolding u by blast
  have d: "uuidRegex_test pid \<and> validateChatMessage message (JStr pid) = []
        \<and> (\<forall>req. \<exists>t i out. create req = Returns t i out) \<longrightarrow>
        (\<exists>result c. fst (post_message_handler (Some create) newId x_user_id message (JStr pid) s)
                       = succeeded 200 (result, Some c)
           \<and> c \<in> set (conversations (snd (post_message_handler (Some create) newId x_user_id
                                              message (JStr pid) s)))
           \<and> c_id c = newId \<and> c_project_id c = pid \<and> c_user_id c = js ''demo-user''
           \<and> c_message c = trim (the_string message))"
    using post_message_handler_accepts[OF proj', of message create newId] unfolding u by blast
  have e: "validateProjectData name description template = []
        \<and> trimmed_description description = Inr d \<and> \<not> truthy template \<longrightarrow>
        (\<exists>row. fst (create_project_handler getTemplateFiles newId x_user_id name description
                      template s) = succeeded 201 (row, [])
           \<and> row \<in> set (projects (snd (create_project_handler getTemplateFiles newId x_user_id
                                          name description template s)))
           \<and> p_id row = newId \<and> p_user_id row = js ''demo-user''
           \<and> p_name row = trim (the_string name) \<and> p_status row = js ''active'')"
    using create_project_handler_accepts[of name description template d getTemplateFiles newId
            x_user_id s]
    unfolding u by blast
  have f: "get_conversations_handler x_user_id projectId parsed' s'
       = get_conversations_handler (Some (js ''demo-user'')) projectId parsed' s'"
    unfolding get_conversations_handler_def u getUserId_absent(3) by simp
  have g: "save_file_handler x_user_id projectId filePath fileName content fileType' s'
       = save_file_handler (Some (js ''demo-user'')) projectId filePath fileName content
           fileType' s'"
    unfolding save_file_handler_def u getUserId_absent(3) by simp
  have h: "post_message_handler anthropic newId' x_user_id message' projectId' s'
       = post_message_handler anthropic newId' (Some (js ''demo-user'')) message' projectId' s'"
    unfolding post_message_handler_def u getUserId_absent(3) by simp
  have i: "create_project_handler getTemplateFiles' newId' x_user_id name' description' template' s'
       = create_project_handler getTemplateFiles' newId' (Some (js ''demo-user'')) name'
           description' template' s'"
    unfolding create_project_handler_def u getUserId_absent(3) by simp
  from u b c d e f g h i show ?thesis by (intro conjI)
qed

section \<open>Ownership on every path to a file or a conversation\<close>

lemma owns_keys:
  "owns s userId projectId
     = ((projectId, userId) \<in> set (map (\<lambda>p. (p_id p, p_user_id p)) (projects s)))"
  by (auto simp: owns_def list_ex_iff)

lemma owns_cong:
  "map (\<lambda>p. (p_id p, p_user_id p)) (projects s') = map (\<lambda>p. (p_id p, p_user_id p)) (projects s)
     \<Longrightarrow> owns s' userId projectId = owns s userId projectId"
  by (simp add: owns_keys)

lemma touchProject_keys:
  "map (\<lambda>p. (p_id p, p_user_id p)) (projects (touchProject pid s))
     = map (\<lambda>p. (p_id p, p_user_id p)) (projects s)"
  by (simp add: touchProject_def Let_def o_def if_distrib cong: if_cong)

lemma saveProjectFile_keys:
  "map (\<lambda>p. (p_id p, p_user_id p))
       (projects (snd (saveProjectFile pid path name content ft s)))
     = map (\<lambda>p. (p_id p, p_user_id p)) (projects s)"
  by (simp add: saveProjectFile_def Let_def touchProject_keys
        split: sum.splits list.splits)

lemma saveProjectFile_conversations:
  "conversations (snd (saveProjectFile pid path name content ft s)) = conversations s"
  by (simp add: saveProjectFile_def Let_def split: sum.splits list.splits)

lemma saveProjectFile_new_rows:
  assumes "r \<in> set (project_files (snd (saveProjectFile pid path name content ft s)))"
    and "r \<notin> set (project_files s)"
  shows "pf_project_id r = pid"
proof (cases "byteLength content")
  case (Inl e)
  with assms show ?thesis by (simp add: saveProjectFile_def)
next
  case (Inr n)
  show ?thesis
  proof (cases "filter (\<lambda>pf. pf_project_id pf = pid \<and> pf_file_path pf = path) (project_files s)")
    case Nil
    with assms Inr show ?thesis
      by (auto simp: saveProjectFile_def Let_def)
  next
    case (Cons a rest)
    with assms Inr show ?thesis
      by (auto simp: saveProjectFile_def Let_def split: if_splits)
  qed
qed

lemma getProject_tables:
  "projects (snd (getProject pid uid s)) = projects s"
  "project_files (snd (getProject pid uid s)) = project_files s"
  "conversations (snd (getProject pid uid s)) = conversations s"
  by (simp_all add: getProject_def Let_def query_def)

lemma getProjectFiles_tables:
  "projects (snd (getProjectFiles pid uid s)) = projects s"
  "project_files (snd (getProjectFiles pid uid s)) = project_files s"
  "conversations (snd (getProjectFiles pid uid s)) = conversations s"
  by (simp_all add: getProjectFiles_def Let_def query_def)

lemma getProject_owns:
  assumes "fst (getProject pid uid s) = Inr (Some p)"
  shows "owns s uid pid"
proof -
  let ?rows = "filter (\<lambda>p. p_id p = pid \<and> p_user_id p = uid \<and> p_status p = js ''active'') (projects s)"
  from assms have "rows0 ?rows = Some p" by (simp add: getProject_def Let_def)
  then have "p \<in> set ?rows" by (cases ?rows) (simp_all add: rows0_def)
  then show ?thesis by (auto simp: owns_def list_ex_iff)
qed

lemma getProject_pair:
  assumes "getProject pid uid s = (r, s1)"
  shows "projects s1 = projects s \<and> project_files s1 = project_files s
         \<and> conversations s1 = conversations s
         \<and> (\<forall>p. r = Inr (Some p) \<longrightarrow> owns s uid pid)"
proof -
  from assms have r: "r = fst (getProject pid uid s)" and s1: "s1 = snd (getProject pid uid s)"
    by simp_all
  show ?thesis
    unfolding r s1 using getProject_owns[of pid uid s]
    by (simp add: getProject_tables)
qed

lemma saveProjectFile_pair:
  assumes "saveProjectFile pid path name content ft s1 = (r, s2)"
  shows "(\<forall>x\<in>set (project_files s2). x \<notin> set (project_files s1) \<longrightarrow> pf_project_id x = pid)
         \<and> conversations s2 = conversations s1
         \<and> map (\<lambda>p. (p_id p, p_user_id p)) (projects s2)
             = map (\<lambda>p. (p_id p, p_user_id p)) (projects s1)"
proof -
  from assms have s2: "s2 = snd (saveProjectFile pid path name content ft s1)" by simp
  show ?thesis
    unfolding s2
    using saveProjectFile_new_rows[of _ pid path name content ft s1]
    by (simp add: saveProjectFile_conversations saveProjectFile_keys)
qed

lemma save_file_handler_owned:
  assumes new: "r \<in> set (project_files (snd (save_file_handler hdr pid fp fn content ft s)))"
    and old: "r \<notin> set (project_files s)"
  shows "pf_project_id r = pid \<and> owns s (getUserId hdr) pid"
proof -
  obtain res s1 where gp: "getProject pid (getUserId hdr) s = (res, s1)"
    by (cases "getProject pid (getUserId hdr) s")
  note g = getProject_pair[OF gp]
  show ?thesis
  proof (cases "\<exists>path name p. fp = Some path \<and> fn = Some name \<and> path \<noteq> [] \<and> name \<noteq> []
                  \<and> content \<noteq> JUndefined \<and> res = Inr (Some p)")
    case False
    then have "project_files (snd (save_file_handler hdr pid fp fn content ft s)) = project_files s"
      using g
      by (auto simp: save_file_handler_def Let_def gp
            split: option.splits sum.splits)
    with new old show ?thesis by simp
  next
    case True
    then obtain path name p where t: "fp = Some path" "fn = Some name" "path \<noteq> []" "name \<noteq> []"
        "content \<noteq> JUndefined" "res = Inr (Some p)"
      by blast
    obtain res2 s2 where sv: "saveProjectFile pid path name content
          (case ft of None \<Rightarrow> js ''text'' | Some t \<Rightarrow> t) s1 = (res2, s2)"
      by (cases "saveProjectFile pid path name content (case ft of None \<Rightarrow> js ''text'' | Some t \<Rightarrow> t) s1")
    note sp = saveProjectFile_pair[OF sv]
    have "project_files (snd (save_file_handler hdr pid fp fn content ft s)) = project_files s2"
      using t by (simp add: save_file_handler_def Let_def gp sv split: sum.splits)
    with new old sp g have "pf_project_id r = pid" by simp
    moreover from g t have "owns s (getUserId hdr) pid" by simp
    ultimately show ?thesis by simp
  qed
qed

lemma save_file_handler_conversations:
  "conversations (snd (save_file_handler hdr pid fp fn content ft s)) = conversations s"
proof -
  obtain res s1 where gp: "getProject pid (getUserId hdr) s = (res, s1)"
    by (cases "getProject pid (getUserId hdr) s")
  note g = getProject_pair[OF gp]
  show ?thesis
    using g saveProjectFile_conversations
    by (auto simp: save_file_handler_def Let_def gp
            split: option.splits sum.splits prod.splits dest: saveProjectFile_pair)
qed

lemma saveConversation_tables:
  "conversations (snd (saveConversation newId pid uid msg resp mdl tok s))
     = conversations s @ [\<lparr>c_id = newId, c_project_id = pid, c_user_id = uid, c_message = msg,
                             c_response = resp, c_ai_model = mdl, c_tokens_used = tok,
                             c_created_at = now s\<rparr>]"
  "project_files (snd (saveConversation newId pid uid msg resp mdl tok s)) = project_files s"
  by (simp_all add: saveConversation_def Let_def)

lemma saveConversation_pair:
  assumes "saveConversation newId pid uid msg resp mdl tok s = (r, s1)"
  shows "project_files s1 = project_files s
     \<and> (\<forall>c\<in>set (conversations s1). c \<notin> set (conversations s) \<longrightarrow>
            c_project_id c = pid \<and> c_user_id c = uid)"
proof -
  from assms have s1: "s1 = snd (saveConversation newId pid uid msg resp mdl tok s)" by simp
  show ?thesis
    unfolding s1 by (auto simp: saveConversation_tables)
qed

lemma generate_and_save_files:
  "project_files (snd (generate_and_save anthropic newId uid msg pidopt ctx files s))
     = project_files s"
  by (auto simp: generate_and_save_def Let_def
        split: option.splits sum.splits prod.splits dest: saveConversation_pair)

lemma generate_and_save_new:
  assumes "c \<in> set (conversations (snd (generate_and_save anthropic newId uid msg pidopt ctx files s)))"
    and "c \<notin> set (conversations s)"
  shows "pidopt = Some (c_project_id c) \<and> c_user_id c = uid"
  using assms
  by (auto simp: generate_and_save_def Let_def
        split: option.splits sum.splits prod.splits if_splits dest: saveConversation_pair)

lemma getProjectFiles_pair:
  assumes "getProjectFiles pid uid s = (r, s1)"
  shows "projects s1 = projects s \<and> project_files s1 = project_files s
         \<and> conversations s1 = conversations s"
proof -
  from assms have s1: "s1 = snd (getProjectFiles pid uid s)" by simp
  show ?thesis unfolding s1 by (simp add: getProjectFiles_tables)
qed

lemma post_message_handler_files:
  "project_files (snd (post_message_handler anthropic newId hdr message projectId s))
     = project_files s"
  by (auto simp: post_message_handler_def Let_def generate_and_save_files
        split: option.splits sum.splits prod.splits
        dest!: getProject_pair getProjectFiles_pair)

lemma post_message_handler_owned:
  assumes new: "c \<in> set (conversations (snd (post_message_handler anthropic newId hdr message
                                                 projectId s)))"
    and old: "c \<notin> set (conversations s)"
  shows "owns s (getUserId hdr) (c_project_id c) \<and> c_user_id c = getUserId hdr"
proof -
  let ?uid = "getUserId hdr"
  let ?pid = "the_string projectId"
  obtain res s1 where gp: "getProject ?pid ?uid s = (res, s1)"
    by (rule prod.exhaust)
  note g = getProject_pair[OF gp]
  obtain res2 s2 where gf: "getProjectFiles ?pid ?uid s1 = (res2, s2)"
    by (rule prod.exhaust)
  note f = getProjectFiles_pair[OF gf]
  show ?thesis
  proof (cases "length (validateChatMessage message projectId) = 0 \<and> truthy projectId
                 \<and> uuidRegex_test ?pid \<and> (\<exists>p. res = Inr (Some p))")
    case False
    then have "conversations (snd (post_message_handler anthropic newId hdr message projectId s))
                 = conversations s
               \<or> (\<not> truthy projectId \<and>
                  snd (post_message_handler anthropic newId hdr message projectId s)
                   = snd (generate_and_save anthropic newId ?uid (trim (the_string message))
                            None [] [] s))"
      using g
      by (auto simp: post_message_handler_def Let_def gp split: option.splits sum.splits)
    then show ?thesis
      using new old generate_and_save_new[of c anthropic newId ?uid "trim (the_string message)"
                      None "[]" "[]" s]
      by auto
  next
    case True
    then obtain p where p: "res = Inr (Some p)" by blast
    obtain existingFiles where ef: "res2 = Inr existingFiles"
      using gf by (cases res2) (auto simp: getProjectFiles_def Let_def)
    have "snd (post_message_handler anthropic newId hdr message projectId s)
            = snd (generate_and_save anthropic newId ?uid (trim (the_string message))
                     (Some ?pid) (projectContext_of p) existingFiles s2)"
      using True by (simp add: post_message_handler_def Let_def gp gf p ef)
    with new old f g
    have "Some ?pid = Some (c_project_id c) \<and> c_user_id c = ?uid"
      using generate_and_save_new[of c anthropic newId ?uid "trim (the_string message)"
              "Some ?pid" "projectContext_of p" existingFiles s2]
      by simp
    moreover from g p have "owns s ?uid ?pid" by simp
    ultimately show ?thesis by simp
  qed
qed

lemma save_template_files_step:
  "snd (save_template_files pid (tf # files) s)
     = snd (save_template_files pid files
              (snd (saveProjectFile pid (tf_path tf) (tf_name tf) (JStr (tf_content tf))
                      (tf_type tf) s)))"
  by (simp split: prod.splits sum.splits)

lemma save_template_files_keys:
  "map (\<lambda>p. (p_id p, p_user_id p)) (projects (snd (save_template_files pid files s)))
     = map (\<lambda>p. (p_id p, p_user_id p)) (projects s)"
proof (induction files arbitrary: s)
  case Nil
  show ?case by simp
next
  case (Cons tf files)
  show ?case
    unfolding save_template_files_step by (simp add: Cons.IH saveProjectFile_keys)
qed

lemma save_template_files_conversations:
  "conversations (snd (save_template_files pid files s)) = conversations s"
proof (induction files arbitrary: s)
  case Nil
  show ?case by simp
next
  case (Cons tf files)
  show ?case
    unfolding save_template_files_step by (simp add: Cons.IH saveProjectFile_conversations)
qed

lemma save_template_files_new:
  "r \<in> set (project_files (snd (save_template_files pid files s)))
     \<Longrightarrow> r \<notin> set (project_files s) \<Longrightarrow> pf_project_id r = pid"
proof (induction files arbitrary: s)
  case Nil
  then show ?case by simp
next
  case (Cons tf files)
  let ?s1 = "snd (saveProjectFile pid (tf_path tf) (tf_name tf) (JStr (tf_content tf))
                    (tf_type tf) s)"
  show ?case
  proof (cases "r \<in> set (project_files ?s1)")
    case True
    from True Cons.prems(2) show ?thesis by (rule saveProjectFile_new_rows)
  next
    case False
    from Cons.prems(1) have "r \<in> set (project_files (snd (save_template_files pid files ?s1)))"
      by (simp only: save_template_files_step)
    from Cons.IH[OF this False] show ?thesis .
  qed
qed

lemma createProject_pair:
  assumes "createProject newId uid name descr template s = (r, s1)"
  shows "\<exists>row. r = Inr row \<and> p_id row = newId \<and> p_user_id row = uid
           \<and> projects s1 = projects s @ [row]
           \<and> project_files s1 = project_files s \<and> conversations s1 = conversations s"
  using assms by (auto simp: createProject_def Let_def)

lemma create_project_handler_owned:
  assumes new: "r \<in> set (project_files (snd (create_project_handler getTemplateFiles newId hdr
                                                 name descr template s)))"
    and old: "r \<notin> set (project_files s)"
  shows "pf_project_id r = newId
         \<and> owns (snd (create_project_handler getTemplateFiles newId hdr name descr template s))
              (getUserId hdr) newId"
proof -
  let ?uid = "getUserId hdr"
  let ?h = "create_project_handler getTemplateFiles newId hdr name descr template s"
  show ?thesis
  proof (cases "length (validateProjectData name descr template) = 0
                \<and> (\<exists>d. trimmed_description descr = Inr d) \<and> truthy template
                \<and> (\<exists>fs. getTemplateFiles (the_string template) = Some fs)")
    case False
    have "project_files (snd ?h) = project_files s"
      using False
      by (auto simp: create_project_handler_def Let_def
            split: sum.splits prod.splits option.splits dest!: createProject_pair)
    with new old show ?thesis by simp
  next
    case True
    then obtain d fs where d: "trimmed_description descr = Inr d"
      and fs: "getTemplateFiles (the_string template) = Some fs"
      by blast
    obtain res s1 where cp: "createProject newId ?uid (trim (the_string name)) d template s
                               = (res, s1)"
      by (rule prod.exhaust)
    from createProject_pair[OF cp] obtain row where row: "res = Inr row" "p_id row = newId"
        "p_user_id row = ?uid" "projects s1 = projects s @ [row]"
        "project_files s1 = project_files s" "conversations s1 = conversations s"
      by blast
    have h: "snd ?h = snd (save_template_files newId fs s1)"
      using True by (simp add: create_project_handler_def Let_def d fs cp row split: prod.splits)
    have o1: "owns s1 ?uid newId"
      using row by (simp add: owns_def)
    have "owns (snd ?h) ?uid newId"
      unfolding h using o1 owns_cong[OF save_template_files_keys] by simp
    moreover have "pf_project_id r = newId"
      using new old save_template_files_new[of r newId fs s1] row(5) unfolding h by simp
    ultimately show ?thesis by simp
  qed
qed

lemma save_template_files_pair:
  assumes "save_template_files pid files s = (created, s2)"
  shows "conversations s2 = conversations s"
proof -
  from assms have "s2 = snd (save_template_files pid files s)" by simp
  then show ?thesis by (simp add: save_template_files_conversations)
qed

lemma create_project_handler_conversations:
  "conversations (snd (create_project_handler getTemplateFiles newId hdr name descr template s))
     = conversations s"
  by (auto simp: create_project_handler_def Let_def
        split: sum.splits prod.splits option.splits
        dest!: createProject_pair save_template_files_pair)

lemma set_join:
  "set [x. x \<leftarrow> xs, y \<leftarrow> ys, P x y] = {x \<in> set xs. \<exists>y\<in>set ys. P x y}"
  by auto

lemma owns_iff:
  "owns s uid pid = (\<exists>p\<in>set (projects s). p_id p = pid \<and> p_user_id p = uid)"
  by (simp add: owns_def list_ex_iff)

lemma getProjectFiles_owned:
  assumes "fst (getProjectFiles pid uid s) = Inr rows" "r \<in> set rows"
  shows "pf_project_id r = pid \<and> owns s uid pid"
proof -
  from assms(1) have "set rows = set [pf. pf \<leftarrow> project_files s, p \<leftarrow> projects s,
                      pf_project_id pf = p_id p \<and> pf_project_id pf = pid \<and> p_user_id p = uid]"
    by (auto simp: getProjectFiles_def Let_def)
  with assms(2) have "r \<in> {pf \<in> set (project_files s). \<exists>p\<in>set (projects s).
                      pf_project_id pf = p_id p \<and> pf_project_id pf = pid \<and> p_user_id p = uid}"
    unfolding set_join by simp
  then show ?thesis unfolding owns_iff by fastforce
qed

lemma getProjectFile_owned:
  assumes "fst (getProjectFile pid path uid s) = Inr (Some r)"
  shows "pf_project_id r = pid \<and> owns s uid pid"
proof -
  let ?joined = "[pf. pf \<leftarrow> project_files s, p \<leftarrow> projects s,
                      pf_project_id pf = p_id p \<and> pf_project_id pf = pid
                      \<and> pf_file_path pf = path \<and> p_user_id p = uid]"
  from assms have "rows0 ?joined = Some r" by (simp add: getProjectFile_def Let_def)
  then have "r \<in> set ?joined" by (cases ?joined) (simp_all add: rows0_def)
  then have "r \<in> {pf \<in> set (project_files s). \<exists>p\<in>set (projects s).
                      pf_project_id pf = p_id p \<and> pf_project_id pf = pid
                      \<and> pf_file_path pf = path \<and> p_user_id p = uid}"
    unfolding set_join by simp
  then show ?thesis unfolding owns_iff by fastforce
qed

lemma getConversations_owned:
  assumes "fst (getConversations pid uid limit s) = Inr rows" "c \<in> set rows"
  shows "c_project_id c = pid \<and> owns s uid pid"
proof -
  let ?joined = "[c. c \<leftarrow> conversations s, p \<leftarrow> projects s,
                     c_project_id c = p_id p \<and> c_project_id c = pid \<and> p_user_id p = uid]"
  from assms(1) have "rows = rev (take (nat limit) (order_by_desc c_created_at ?joined))"
    by (simp add: getConversations_def Let_def split: if_splits)
  with assms(2) have "c \<in> set (take (nat limit) (order_by_desc c_created_at ?joined))"
    by simp
  then have "c \<in> set (order_by_desc c_created_at ?joined)"
    by (rule in_set_takeD)
  then have "c \<in> set ?joined" by (simp add: order_by_desc_def)
  then have "c \<in> {c \<in> set (conversations s). \<exists>p\<in>set (projects s).
                     c_project_id c = p_id p \<and> c_project_id c = pid \<and> p_user_id p = uid}"
    unfolding set_join by simp
  then show ?thesis unfolding owns_iff by fastforce
qed

lemma getProjects_owned:
  assumes "fst (getProjects uid s) = Inr rows" "q \<in> set rows"
  shows "owns s uid (p_id (ps_project q))"
proof -
  let ?mine = "filter (\<lambda>p. p_user_id p = uid \<and> p_status p = js ''active'') (projects s)"
  from assms(1) have "rows = map (summary s) (order_by_desc p_updated_at ?mine)"
    by (simp add: getProjects_def Let_def)
  with assms(2) obtain p where "p \<in> set ?mine" "q = summary s p"
    by (auto simp: order_by_desc_def)
  then have "p \<in> set (projects s)" "p_user_id p = uid" "ps_project q = p"
    by (simp_all add: summary_def Let_def)
  then show ?thesis unfolding owns_iff by blast
qed

lemma deleteProjectFile_owned:
  assumes "r \<in> set (project_files s)"
    and "r \<notin> set (project_files (snd (deleteProjectFile pid path uid s)))"
  shows "pf_project_id r = pid \<and> owns s uid pid"
proof -
  from assms have "pf_project_id r = pid \<and> pf_file_path r = path
      \<and> list_ex (\<lambda>p. pf_project_id r = p_id p \<and> p_user_id p = uid) (projects s)"
    by (simp add: deleteProjectFile_def Let_def)
  then show ?thesis unfolding owns_iff list_ex_iff by fastforce
qed

lemma saveProjectFile_unchecked:
  "\<exists>row. fst (saveProjectFile pid path name (JStr text) ft s) = Inr row
         \<and> row \<in> set (project_files (snd (saveProjectFile pid path name (JStr text) ft s)))
         \<and> pf_project_id row = pid"
proof (cases "filter (\<lambda>pf. pf_project_id pf = pid \<and> pf_file_path pf = path) (project_files s)")
  case Nil
  then show ?thesis by (simp add: saveProjectFile_def byteLength_def Let_def)
next
  case (Cons a rest)
  then have "a \<in> set (filter (\<lambda>pf. pf_project_id pf = pid \<and> pf_file_path pf = path)
                         (project_files s))"
    by simp
  then have "a \<in> set (project_files s)" "pf_project_id a = pid" "pf_file_path a = path"
    by simp_all
  then show ?thesis
    by (auto simp: saveProjectFile_def byteLength_def Let_def Cons image_iff)
qed

text \<open>
  C7. Every row that getProjectFiles, getProjectFile, getConversations return for a user,
  every project that getProjects summarises, and every file row that deleteProjectFile
  removes, belongs to a project that user owns. Through the handlers, every file row that
  POST /:id/files writes, every conversation row that POST /message writes and every file
  row that POST / writes belongs to a project owned by the caller the handler derived
  from the request; the conversation row carries that caller as its user. The handlers
  leave the other child table as it was.
\<close>

theorem ownership_rederived:
  "(\<forall>rows. fst (getProjectFiles pid uid s) = Inr rows \<longrightarrow>
       (\<forall>r\<in>set rows. pf_project_id r = pid \<and> owns s uid pid))
   \<and> (\<forall>r. fst (getProjectFile pid path uid s) = Inr (Some r) \<longrightarrow>
         pf_project_id r = pid \<and> owns s uid pid)
   \<and> (\<forall>rows. fst (getConversations pid uid limit s) = Inr rows \<longrightarrow>
         (\<forall>c\<in>set rows. c_project_id c = pid \<and> owns s uid pid))
   \<and> (\<forall>rows. fst (getProjects uid s) = Inr rows \<longrightarrow>
         (\<forall>q\<in>set rows. owns s uid (p_id (ps_project q))))
   \<and> (\<forall>r\<in>set (project_files s).
         r \<notin> set (project_files (snd (deleteProjectFile pid path uid s))) \<longrightarrow>
           pf_project_id r = pid \<and> owns s uid pid)
   \<and> (\<forall>r\<in>set (project_files
                    (snd (save_file_handler x_user_id pid filePath fileName content fileType s))).
         r \<notin> set (project_files s) \<longrightarrow>
           pf_project_id r = pid \<and> owns s (getUserId x_user_id) pid)
   \<and> conversations (snd (save_file_handler x_user_id pid filePath fileName content fileType s))
       = conversations s
   \<and> (\<forall>c\<in>set (conversations
                    (snd (post_message_handler anthropic newId x_user_id message projectId s))).
         c \<notin> set (conversations s) \<longrightarrow>
           owns s (getUserId x_user_id) (c_project_id c) \<and> c_user_id c = getUserId x_user_id)
   \<and> project_files (snd (post_message_handler anthropic newId x_user_id message projectId s))
       = project_files s
   \<and> (\<forall>r\<in>set (project_files
                    (snd (create_project_handler getTemplateFiles newId x_user_id name
                            description template s))).
         r \<notin> set (project_files s) \<longrightarrow>
           pf_project_id r = newId
           \<and> owns (snd (create_project_handler getTemplateFiles newId x_user_id name
                           description template s)) (getUserId x_user_id) newId)
   \<and> conversations (snd (create_project_handler getTemplateFiles newId x_user_id name
                             description template s))
       = conversations s"
proof (intro conjI allI impI ballI)
  fix rows r
  assume "fst (getProjectFiles pid uid s) = Inr rows" "r \<in> set rows"
  then show "pf_project_id r = pid" "owns s uid pid"
    using getProjectFiles_owned by blast+
next
  fix r
  assume "fst (getProjectFile pid path uid s) = Inr (Some r)"
  then show "pf_project_id r = pid" "owns s uid pid"
    using getProjectFile_owned by blast+
next
  fix rows c
  assume "fst (getConversations pid uid limit s) = Inr rows" "c \<in> set rows"
  then show "c_project_id c = pid" "owns s uid pid"
    using getConversations_owned by blast+
next
  fix rows q
  assume "fst (getProjects uid s) = Inr rows" "q \<in> set rows"
  then show "owns s uid (p_id (ps_project q))"
    by (rule getProjects_owned)
next
  fix r
  assume "r \<in> set (project_files s)"
    "r \<notin> set (project_files (snd (deleteProjectFile pid path uid s)))"
  then show "pf_project_id r = pid" "owns s uid pid"
    using deleteProjectFile_owned by blast+
next
  fix r
  assume "r \<in> set (project_files
                    (snd (save_file_handler x_user_id pid filePath fileName content fileType s)))"
    "r \<notin> set (project_files s)"
  then show "pf_project_id r = pid" "owns s (getUserId x_user_id) pid"
    using save_file_handler_owned by blast+
next
  show "conversations (snd (save_file_handler x_user_id pid filePath fileName content fileType s))
       = conversations s"
    by (rule save_file_handler_conversations)
next
  fix c
  assume "c \<in> set (conversations
                    (snd (post_message_handler anthropic newId x_user_id message projectId s)))"
    "c \<notin> set (conversations s)"
  then show "owns s (getUserId x_user_id) (c_project_id c)" "c_user_id c = getUserId x_user_id"
    using post_message_handler_owned by blast+
next
  show "project_files (snd (post_message_handler anthropic newId x_user_id message projectId s))
       = project_files s"
    by (rule post_message_handler_files)
next
  fix r
  assume "r \<in> set (project_files
                    (snd (create_project_handler getTemplateFiles newId x_user_id name
                            description template s)))"
    "r \<notin> set (project_files s)"
  then show "pf_project_id r = newId"
    "owns (snd (create_project_handler getTemplateFiles newId x_user_id name
                           description template s)) (getUserId x_user_id) newId"
    using create_project_handler_owned by blast+
next
  show "conversations (snd (create_project_handler getTemplateFiles newId x_user_id name
                             description template s))
       = conversations s"
    by (rule create_project_handler_conversations)
qed

section \<open>The theorems at concrete inputs\<close>

theorem updateProject_empty_witness:
  "updateProject (\<lambda>key value. None) example_id (js ''alice'') [] example_db
     = (Inl (Error (js ''No fields to update'')), example_db)
   \<and> issued (snd (updateProject (\<lambda>key value. None) example_id (js ''alice'') [] example_db))
       = []"
  using updateProject_empty[of "\<lambda>key value. None" example_id "js ''alice''" example_db]
  by (simp add: example_db_def)

lemma example_projects: "projects example_db = [example_project]"
  by (simp add: example_db_def)

lemma alice_not_bob: "js ''alice'' \<noteq> js ''bob''"
  by (simp add: js_def)

lemma example_id_other: "example_id \<noteq> js ''no-such-project''"
  by (simp add: example_id_def js_def)

lemma alice_project:
  "fst (getProject example_id (js ''alice'') example_db) = Inr (Some example_project)"
  by (simp add: getProject_def example_projects example_project_def rows0_def)

lemma alice_files:
  "fst (getProjectFiles example_id (js ''alice'') example_db) = Inr [example_file]"
  by (simp add: getProjectFiles_def example_db_def example_project_def example_file_def)

theorem ownership_isolation_witness:
  "map (\<lambda>p. (p_id p, p_user_id p)) (projects example_db) = [(example_id, js ''alice'')]
   \<and> js ''alice'' \<noteq> js ''bob''
   \<and> example_id \<noteq> js ''no-such-project''
   \<and> fst (getProject example_id (js ''alice'') example_db) = Inr (Some example_project)
   \<and> fst (getProject example_id (js ''bob'') example_db) = Inr None
   \<and> fst (getProject (js ''no-such-project'') (js ''bob'') example_db) = Inr None
   \<and> fst (getProjectFiles example_id (js ''alice'') example_db) = Inr [example_file]
   \<and> fst (getProjectFiles example_id (js ''bob'') example_db) = Inr []
   \<and> fst (getProjectFiles (js ''no-such-project'') (js ''bob'') example_db) = Inr []
   \<and> fst (getProjectFile example_id (js ''a.txt'') (js ''bob'') example_db) = Inr None
   \<and> fst (getProjectFile (js ''no-such-project'') (js ''a.txt'') (js ''bob'') example_db)
       = Inr None
   \<and> fst (getConversations example_id (js ''bob'') 50 example_db) = Inr []
   \<and> fst (getConversations (js ''no-such-project'') (js ''bob'') 50 example_db) = Inr []"
proof -
  have h1: "\<forall>p\<in>set (projects example_db). p_id p = example_id \<longrightarrow> p_user_id p = js ''alice''"
    by (simp add: example_projects example_project_def)
  have h3: "\<forall>p\<in>set (projects example_db). p_id p \<noteq> js ''no-such-project''"
    by (simp add: example_projects example_project_def example_id_other)
  have keys: "map (\<lambda>p. (p_id p, p_user_id p)) (projects example_db)
                = [(example_id, js ''alice'')]"
    by (simp add: example_projects example_project_def)
  from ownership_isolation[OF h1 alice_not_bob h3, of "js ''a.txt''" 50]
    keys example_id_other alice_project alice_files alice_not_bob
  show ?thesis by simp
qed

lemma example_encoding:
  "utf8_encode [0x68, 0xE9, 0x20AC, 0xD83D, 0xDE80]
     = [0x68, 0xC3, 0xA9, 0xE2, 0x82, 0xAC, 0xF0, 0x9F, 0x9A, 0x80]"
  by (simp add: encode_code_point_def scalar_of_unit_def is_high_surrogate_def
        is_low_surrogate_def)

theorem saveProjectFile_size_bytes_witness:
  "list_all (\<lambda>r. pf_size_bytes r = length (pf_content r)) (project_files example_db)
   \<and> (\<exists>row. fst (saveProjectFile example_id (js ''a.txt'') (js ''a.txt'')
                      (JStr [0x68, 0xE9, 0x20AC, 0xD83D, 0xDE80]) (js ''text'') example_db)
                = Inr row
         \<and> pf_content row = [0x68, 0xC3, 0xA9, 0xE2, 0x82, 0xAC, 0xF0, 0x9F, 0x9A, 0x80]
         \<and> pf_size_bytes row = 10
         \<and> row \<in> set (project_files (snd (saveProjectFile example_id (js ''a.txt'')
                      (js ''a.txt'') (JStr [0x68, 0xE9, 0x20AC, 0xD83D, 0xDE80]) (js ''text'')
                      example_db)))
         \<and> pf_project_id row = example_id \<and> pf_file_path row = js ''a.txt'')
   \<and> list_all (\<lambda>r. pf_size_bytes r = length (pf_content r))
         (project_files (snd (saveProjectFile example_id (js ''a.txt'') (js ''a.txt'')
                      (JStr [0x68, 0xE9, 0x20AC, 0xD83D, 0xDE80]) (js ''text'') example_db)))"
proof -
  have inv: "\<forall>r\<in>set (project_files example_db). pf_size_bytes r = length (pf_content r)"
    by (simp add: example_db_def example_file_def)
  have upd: "fst (saveProjectFile example_id (js ''a.txt'') (js ''a.txt'')
                      (JStr [0x68, 0xE9, 0x20AC, 0xD83D, 0xDE80]) (js ''text'') example_db)
       = Inr (example_file\<lparr>pf_content := utf8_encode [0x68, 0xE9, 0x20AC, 0xD83D, 0xDE80],
                pf_file_name := js ''a.txt'', pf_file_type := js ''text'',
                pf_size_bytes := utf8_length [0x68, 0xE9, 0x20AC, 0xD83D, 0xDE80],
                pf_updated_at := 5\<rparr>)"
    by (simp add: saveProjectFile_def byteLength_def content_bytes_def Let_def example_db_def
          example_file_def query_def del: utf8_encode.simps utf8_length.simps)
  from saveProjectFile_size_bytes[of example_id "js ''a.txt''" "js ''a.txt''"
         "[0x68, 0xE9, 0x20AC, 0xD83D, 0xDE80]" "js ''text''" example_db] inv upd
  show ?thesis
    by (auto simp: example_encoding example_file_def list_all_iff
          simp del: utf8_encode.simps utf8_length.simps)
qed

theorem getConversations_chronological_witness:
  "(0::int) < 2
   \<and> res_success (fst (get_conversations_handler (Some (js ''demo-user'')) example_demo_id
                         (Some 500) example_demo_db))
   \<and> candidate_conversations example_demo_db example_demo_id (js ''demo-user'')
       = [example_demo_conversation 4, example_demo_conversation 2, example_demo_conversation 3]
   \<and> fst (getConversations example_demo_id (js ''demo-user'') 2 example_demo_db)
       = Inr [example_demo_conversation 3, example_demo_conversation 4]
   \<and> (\<exists>rows older. fst (getConversations example_demo_id (js ''demo-user'') 2 example_demo_db)
                       = Inr rows
          \<and> sorted (map c_created_at rows) \<and> int (length rows) \<le> 2
          \<and> length rows = min (nat 2) (length (candidate_conversations example_demo_db
                                                   example_demo_id (js ''demo-user'')))
          \<and> mset (older @ rows) = mset (candidate_conversations example_demo_db
                                            example_demo_id (js ''demo-user''))
          \<and> (\<forall>x\<in>set older. \<forall>r\<in>set rows. c_created_at x \<le> c_created_at r))
   \<and> effective_limit (Some 500) = 100
   \<and> res_data (fst (get_conversations_handler (Some (js ''demo-user'')) example_demo_id
                      (Some 500) example_demo_db))
       = Some [example_demo_conversation 2, example_demo_conversation 3,
               example_demo_conversation 4]"
proof -
  have ok: "res_success (fst (get_conversations_handler (Some (js ''demo-user'')) example_demo_id
                         (Some 500) example_demo_db))"
    by code_simp
  have cands: "candidate_conversations example_demo_db example_demo_id (js ''demo-user'')
       = [example_demo_conversation 4, example_demo_conversation 2, example_demo_conversation 3]"
    by code_simp
  have two: "fst (getConversations example_demo_id (js ''demo-user'') 2 example_demo_db)
       = Inr [example_demo_conversation 3, example_demo_conversation 4]"
    by code_simp
  have clamp: "effective_limit (Some 500) = 100"
    by (simp add: effective_limit_def)
  have all: "res_data (fst (get_conversations_handler (Some (js ''demo-user'')) example_demo_id
                      (Some 500) example_demo_db))
       = Some [example_demo_conversation 2, example_demo_conversation 3,
               example_demo_conversation 4]"
    by code_simp
  from getConversations_chronological[of 2 example_demo_id "js ''demo-user''" example_demo_db "Some 500"
         "Some (js ''demo-user'')" example_demo_id]
  have inst: "\<exists>rows older. fst (getConversations example_demo_id (js ''demo-user'') 2 example_demo_db)
                       = Inr rows
          \<and> sorted (map c_created_at rows) \<and> int (length rows) \<le> 2
          \<and> length rows = min (nat 2) (length (candidate_conversations example_demo_db
                                                   example_demo_id (js ''demo-user'')))
          \<and> mset (older @ rows) = mset (candidate_conversations example_demo_db
                                            example_demo_id (js ''demo-user''))
          \<and> (\<forall>x\<in>set older. \<forall>r\<in>set rows. c_created_at x \<le> c_created_at r)"
    by simp
  have pos: "(0::int) < 2" by simp
  from pos ok cands two inst clamp all show ?thesis by (intro conjI)
qed

theorem deleteProject_soft_witness:
  "fst (deleteProject example_id (js ''alice'') example_db)
     = Inr (Some (example_project\<lparr>p_status := js ''deleted'', p_updated_at := 5\<rparr>))
   \<and> map p_id (projects (snd (deleteProject example_id (js ''alice'') example_db)))
       = [example_id]
   \<and> fst (getProject example_id (js ''alice'')
             (snd (deleteProject example_id (js ''alice'') example_db))) = Inr None
   \<and> fst (getProjects (js ''alice'') (snd (deleteProject example_id (js ''alice'') example_db)))
       = Inr []
   \<and> fst (getProjectFiles example_id (js ''alice'')
             (snd (deleteProject example_id (js ''alice'') example_db))) = Inr [example_file]
   \<and> fst (getProjectFile example_id (js ''a.txt'') (js ''alice'')
             (snd (deleteProject example_id (js ''alice'') example_db)))
       = Inr (Some example_file)
   \<and> fst (getConversations example_id (js ''alice'') 50
             (snd (deleteProject example_id (js ''alice'') example_db)))
       = Inr [example_conversation 3, example_conversation 4]"
proof -
  have ok: "fst (deleteProject example_id (js ''alice'') example_db)
     = Inr (Some (example_project\<lparr>p_status := js ''deleted'', p_updated_at := 5\<rparr>))"
    by code_simp
  have before:
      "fst (getProjectFile example_id (js ''a.txt'') (js ''alice'') example_db)
         = Inr (Some example_file)"
      "fst (getConversations example_id (js ''alice'') 50 example_db)
         = Inr [example_conversation 3, example_conversation 4]"
    by code_simp+
  have ps: "map p_id (projects example_db) = [example_id]"
    by (simp add: example_db_def example_project_def)
  have none: "fst (getProjects (js ''alice'')
                     (snd (deleteProject example_id (js ''alice'') example_db))) = Inr []"
    by code_simp
  from deleteProject_soft[OF ok, of "js ''a.txt''" 50] ok before alice_files ps none
  show ?thesis by simp
qed

theorem not_configured_short_circuit_witness:
  "\<not> isConfigured None
   \<and> not_configured_failure (generateCode None (js ''a button'') [] [])
   \<and> not_configured_failure (explainCode None (js ''x = 1'') (js ''javascript''))
   \<and> not_configured_failure (suggestImprovements None (js ''x = 1'') [])
   \<and> not_configured_failure (generateTests None (js ''x = 1'') (js ''jest''))"
  using not_configured_short_circuit[of None "js ''a button''" "[]" "[]" "js ''x = 1''"
          "js ''javascript''" "js ''x = 1''" "[]" "js ''x = 1''" "js ''jest''"]
  by (simp add: isConfigured_def)

lemma demo_project:
  "fst (getProject example_demo_id (js ''demo-user'') example_demo_db)
     = Inr (Some example_demo_project)"
  by (simp add: getProject_def example_demo_db_def example_demo_project_def rows0_def)

lemma demo_uuid: "uuidRegex_test example_demo_id"
  by code_simp

lemma demo_message: "validateChatMessage (JStr (js ''hello'')) (JStr example_demo_id) = []"
  by code_simp

lemma demo_name: "validateProjectData (JStr (js '' App '')) JUndefined JUndefined = []"
  by code_simp

lemma demo_trim: "trim (js '' App '') = js ''App''"
  by code_simp

lemma demo_answers: "\<forall>req. \<exists>t i out. example_provider req = Returns t i out"
  by (simp add: example_provider_def)

lemma demo_history:
  "fst (get_conversations_handler None example_demo_id (Some 2) example_demo_db)
     = succeeded 200 [example_demo_conversation 3, example_demo_conversation 4]"
  by code_simp

theorem getUserId_default_witness:
  "(None = (None :: jsstring option) \<or> None = Some ([] :: jsstring))
   \<and> fst (getProject example_demo_id (js ''demo-user'') example_demo_db)
       = Inr (Some example_demo_project)
   \<and> js ''b.txt'' \<noteq> []
   \<and> uuidRegex_test example_demo_id \<and> 0 \<le> effective_limit (Some 2)
   \<and> validateChatMessage (JStr (js ''hello'')) (JStr example_demo_id) = []
   \<and> (\<forall>req. \<exists>t i out. example_provider req = Returns t i out)
   \<and> validateProjectData (JStr (js '' App '')) JUndefined JUndefined = []
   \<and> trimmed_description JUndefined = Inr []
   \<and> \<not> truthy JUndefined
   \<and> getUserId None = js ''demo-user''
   \<and> (\<exists>row. fst (save_file_handler None example_demo_id (Some (js ''b.txt''))
                    (Some (js ''b.txt'')) (JStr (js ''hi'')) None example_demo_db)
                = succeeded 200 row
         \<and> row \<in> set (project_files
                         (snd (save_file_handler None example_demo_id (Some (js ''b.txt''))
                                 (Some (js ''b.txt'')) (JStr (js ''hi'')) None example_demo_db)))
         \<and> pf_project_id row = example_demo_id \<and> pf_file_path row = js ''b.txt''
         \<and> pf_content row = utf8_encode (js ''hi''))
   \<and> fst (get_conversations_handler None example_demo_id (Some 2) example_demo_db)
       = succeeded 200 [example_demo_conversation 3, example_demo_conversation 4]
   \<and> (\<exists>result c. fst (post_message_handler (Some example_provider) (js ''new-1'') None
                         (JStr (js ''hello'')) (JStr example_demo_id) example_demo_db)
                     = succeeded 200 (result, Some c)
         \<and> c \<in> set (conversations
                        (snd (post_message_handler (Some example_provider) (js ''new-1'') None
                                (JStr (js ''hello'')) (JStr example_demo_id) example_demo_db)))
         \<and> c_id c = js ''new-1'' \<and> c_project_id c = example_demo_id
         \<and> c_user_id c = js ''demo-user''
         \<and> c_message c = trim (the_string (JStr (js ''hello''))))
   \<and> (\<exists>row. fst (create_project_handler example_templates (js ''new-1'') None
                    (JStr (js '' App '')) JUndefined JUndefined example_demo_db)
                = succeeded 201 (row, [])
         \<and> row \<in> set (projects
                         (snd (create_project_handler example_templates (js ''new-1'') None
                                 (JStr (js '' App '')) JUndefined JUndefined example_demo_db)))
         \<and> p_id row = js ''new-1'' \<and> p_user_id row = js ''demo-user''
         \<and> p_name row = js ''App'' \<and> p_status row = js ''active'')"
proof -
  have h0: "None = (None :: jsstring option) \<or> None = Some ([] :: jsstring)" by simp
  have ne: "js ''b.txt'' \<noteq> []" by (simp add: js_def)
  have lim: "0 \<le> effective_limit (Some 2)" by (simp add: effective_limit_def)
  have td: "trimmed_description JUndefined = Inr []" by (simp add: trimmed_description_def)
  have nt: "\<not> truthy JUndefined" by (simp add: truthy_def)
  have name: "the_string (JStr (js '' App '')) = js '' App ''" by (simp add: the_string_def)
  note t = getUserId_default[OF h0 demo_project,
      where path = "js ''b.txt''" and fname = "js ''b.txt''" and body = "js ''hi''"
        and fileType = None and parsed = "Some 2" and message = "JStr (js ''hello'')"
        and create = example_provider and newId = "js ''new-1''"
        and name = "JStr (js '' App '')" and description = JUndefined and template = JUndefined
        and d = "[]" and getTemplateFiles = example_templates]
  from t have a: "getUserId None = js ''demo-user''" by blast
  from t ne have b: "\<exists>row. fst (save_file_handler None example_demo_id (Some (js ''b.txt''))
                    (Some (js ''b.txt'')) (JStr (js ''hi'')) None example_demo_db)
                = succeeded 200 row
         \<and> row \<in> set (project_files
                         (snd (save_file_handler None example_demo_id (Some (js ''b.txt''))
                                 (Some (js ''b.txt'')) (JStr (js ''hi'')) None example_demo_db)))
         \<and> pf_project_id row = example_demo_id \<and> pf_file_path row = js ''b.txt''
         \<and> pf_content row = utf8_encode (js ''hi'')"
    by blast
  from t demo_uuid demo_message demo_answers
  have c: "\<exists>result c. fst (post_message_handler (Some example_provider) (js ''new-1'') None
                         (JStr (js ''hello'')) (JStr example_demo_id) example_demo_db)
                     = succeeded 200 (result, Some c)
         \<and> c \<in> set (conversations
                        (snd (post_message_handler (Some example_provider) (js ''new-1'') None
                                (JStr (js ''hello'')) (JStr example_demo_id) example_demo_db)))
         \<and> c_id c = js ''new-1'' \<and> c_project_id c = example_demo_id
         \<and> c_user_id c = js ''demo-user''
         \<and> c_message c = trim (the_string (JStr (js ''hello'')))"
    by blast
  from t demo_name td nt
  have d: "\<exists>row. fst (create_project_handler example_templates (js ''new-1'') None
                    (JStr (js '' App '')) JUndefined JUndefined example_demo_db)
                = succeeded 201 (row, [])
         \<and> row \<in> set (projects
                         (snd (create_project_handler example_templates (js ''new-1'') None
                                 (JStr (js '' App '')) JUndefined JUndefined example_demo_db)))
         \<and> p_id row = js ''new-1'' \<and> p_user_id row = js ''demo-user''
         \<and> p_name row = js ''App'' \<and> p_status row = js ''active''"
    unfolding name demo_trim by blast
  from h0 demo_project ne demo_uuid lim demo_message demo_answers demo_name td nt a b
    demo_history c d
  show ?thesis by (intro conjI)
qed

lemma alice_saves:
  "\<exists>r\<in>set (project_files (snd (save_file_handler (Some (js ''alice'')) example_id
              (Some (js ''b.txt'')) (Some (js ''b.txt'')) (JStr (js ''hi'')) None example_db))).
      r \<notin> set (project_files example_db)"
  by (simp add: save_file_handler_def getUserId_def getProject_def saveProjectFile_def
        byteLength_def Let_def example_db_def example_project_def example_file_def rows0_def
        touchProject_def query_def js_def
      del: utf8_encode.simps utf8_length.simps)

lemma bob_saves_nothing:
  "project_files (snd (save_file_handler (Some (js ''bob'')) example_id
              (Some (js ''b.txt'')) (Some (js ''b.txt'')) (JStr (js ''hi'')) None example_db))
     = project_files example_db"
  by (simp add: save_file_handler_def getUserId_def getProject_def Let_def example_db_def
        example_project_def rows0_def query_def js_def)

lemma alice_asks:
  "\<exists>c\<in>set (conversations (snd (post_message_handler (Some example_provider) (js ''new-1'')
              (Some (js ''alice'')) (JStr (js ''hello'')) (JStr example_id) example_db))).
      c \<notin> set (conversations example_db)"
  by code_simp

lemma alice_creates:
  "\<exists>r\<in>set (project_files (snd (create_project_handler example_templates (js ''new-1'')
              (Some (js ''alice'')) (JStr (js ''App'')) JUndefined (JStr (js ''react-basic''))
              example_db))).
      r \<notin> set (project_files example_db)"
  by (simp add: create_project_handler_def validateProjectData_def truthy_def is_string_def
        length_exceeds_def the_string_def trim_def is_white_space_def trimmed_description_def createProject_def
        example_templates_def getUserId_def saveProjectFile_def as_text_def
        byteLength_def Let_def example_db_def example_project_def example_file_def
        touchProject_def query_def js_def
      del: utf8_encode.simps utf8_length.simps)

lemma alice_user: "getUserId (Some (js ''alice'')) = js ''alice''"
  by (simp add: getUserId_def js_def)

theorem ownership_rederived_witness:
  "fst (getProjectFiles example_id (js ''alice'') example_db) = Inr [example_file]
   \<and> owns example_db (js ''alice'') example_id
   \<and> (\<exists>r\<in>set (project_files (snd (save_file_handler (Some (js ''alice'')) example_id
              (Some (js ''b.txt'')) (Some (js ''b.txt'')) (JStr (js ''hi'')) None example_db))).
         r \<notin> set (project_files example_db) \<and> pf_project_id r = example_id)
   \<and> project_files (snd (save_file_handler (Some (js ''bob'')) example_id
              (Some (js ''b.txt'')) (Some (js ''b.txt'')) (JStr (js ''hi'')) None example_db))
       = project_files example_db
   \<and> (\<exists>c\<in>set (conversations (snd (post_message_handler (Some example_provider) (js ''new-1'')
              (Some (js ''alice'')) (JStr (js ''hello'')) (JStr example_id) example_db))).
         c \<notin> set (conversations example_db)
         \<and> owns example_db (js ''alice'') (c_project_id c) \<and> c_user_id c = js ''alice'')
   \<and> (\<exists>r\<in>set (project_files (snd (create_project_handler example_templates (js ''new-1'')
              (Some (js ''alice'')) (JStr (js ''App'')) JUndefined (JStr (js ''react-basic''))
              example_db))).
         r \<notin> set (project_files example_db) \<and> pf_project_id r = js ''new-1''
         \<and> owns (snd (create_project_handler example_templates (js ''new-1'')
              (Some (js ''alice'')) (JStr (js ''App'')) JUndefined (JStr (js ''react-basic''))
              example_db)) (js ''alice'') (js ''new-1''))"
proof -
  note t = ownership_rederived[where pid = example_id and uid = "js ''alice''"
      and s = example_db and path = "js ''a.txt''" and limit = 50
      and x_user_id = "Some (js ''alice'')" and filePath = "Some (js ''b.txt'')"
      and fileName = "Some (js ''b.txt'')" and content = "JStr (js ''hi'')" and fileType = None
      and anthropic = "Some example_provider" and newId = "js ''new-1''"
      and message = "JStr (js ''hello'')" and projectId = "JStr example_id"
      and getTemplateFiles = example_templates and name = "JStr (js ''App'')"
      and description = JUndefined and template = "JStr (js ''react-basic'')"]
  have o: "owns example_db (js ''alice'') example_id"
    using t alice_files by (simp add: example_file_def)
  from t alice_files o alice_saves bob_saves_nothing alice_asks alice_creates
  show ?thesis
    unfolding alice_user by blast
qed

end
